theory Spec2Isabelle
  imports Complex_Main "HOL-Library.Sublist"
begin

section \<open>Common helpers\<close>

text \<open>
  JavaScript numbers are modelled as \<^typ>\<open>real\<close> (no rounding error, no NaN, no
  infinities); \<open>Math.round\<close> is \<^term>\<open>round\<close>, which rounds halves upwards as
  JavaScript does. \<open>Array.prototype.join\<close> is \<open>join\<close>; \<open>String.prototype.includes\<close>
  is \<^term>\<open>sublist\<close>.
\<close>

fun join :: "string \<Rightarrow> string list \<Rightarrow> string" where
  "join sep [] = []"
| "join sep [x] = x"
| "join sep (x # y # ys) = x @ sep @ join sep (y # ys)"

section \<open>Decision agent: the rule-based market decision tool\<close>

subsection \<open>Data model\<close>

record MarketContext =
  marketId :: string
  title :: string
  currentPrice :: real
  impliedProbability :: real
  liquidity :: real
  volume24h :: real
  timeToClose :: real
  spread :: real
  orderBookEnabled :: bool

record NewsIntelligence =
  sentiment_score :: real
  news_confidence :: real
  breaking_news :: bool
  news_count :: real
  source_credibility :: real

record InfluencerSignal =
  username :: string
  sentiment :: real
  influence_weight :: real

record SocialIntelligence =
  twitter_sentiment :: real
  reddit_sentiment :: real
  engagement_momentum :: real
  trending_topics :: "string list"
  influencer_signals :: "InfluencerSignal list"

record TechnicalSignals =
  price_momentum :: real
  volume_trend :: real
  market_efficiency :: real

datatype consensus = bullish | bearish | neutral

record CrossMarketSignals =
  correlation_score :: real
  consensus_direction :: consensus

record MarketIntelligence =
  technical_signals :: TechnicalSignals
  cross_market_signals :: CrossMarketSignals

record IntelligenceData =
  newsIntelligence :: NewsIntelligence
  socialIntelligence :: SocialIntelligence
  marketIntelligence :: MarketIntelligence

record ScoringFactors =
  sentiment_edge :: real
  technical_momentum :: real
  liquidity_quality :: real
  timing_urgency :: real
  news_catalyst :: real

record RiskAssessment =
  max_position_size :: real
  recommended_size :: real
  stop_loss_price :: "real option"
  take_profit_price :: "real option"
  risk_factors :: "string list"
  confidence_adjusted_size :: real

datatype action = BUY | SELL | HOLD | NONE

datatype strategy = sentiment_arbitrage | breaking_news_hunter | none

datatype urgency = IMMEDIATE | NORMAL | PATIENT

record TradeDecision =
  action :: action
  outcome :: "string option"
  confidence :: int
  position_size :: real
  reasoning :: string
  strategy :: strategy
  execution_urgency :: urgency

record Scoring =
  totalScore :: real
  breakdown :: ScoringFactors

record DecisionOutput =
  decision :: TradeDecision
  risk_assessment :: RiskAssessment
  scoring_breakdown :: ScoringFactors
  total_score :: real
  market_filters_passed :: bool
  recommended_for_execution :: bool

subsection \<open>The tool's input schema\<close>

text \<open>The ranges that the zod input schema of the tool enforces on the numeric fields.\<close>

definition market_schema :: "MarketContext \<Rightarrow> bool" where
  "market_schema m \<longleftrightarrow>
     0 \<le> currentPrice m \<and> currentPrice m \<le> 1 \<and>
     0 \<le> impliedProbability m \<and> impliedProbability m \<le> 100 \<and>
     0 \<le> liquidity m \<and> 0 \<le> volume24h m \<and> 0 \<le> timeToClose m \<and> 0 \<le> spread m"

definition influencer_schema :: "InfluencerSignal \<Rightarrow> bool" where
  "influencer_schema s \<longleftrightarrow>
     - 1 \<le> sentiment s \<and> sentiment s \<le> 1 \<and>
     0 \<le> influence_weight s \<and> influence_weight s \<le> 1"

definition intelligence_schema :: "IntelligenceData \<Rightarrow> bool" where
  "intelligence_schema i \<longleftrightarrow>
     (let n = newsIntelligence i; s = socialIntelligence i;
          t = technical_signals (marketIntelligence i);
          c = cross_market_signals (marketIntelligence i)
      in - 1 \<le> sentiment_score n \<and> sentiment_score n \<le> 1 \<and>
         0 \<le> news_confidence n \<and> news_confidence n \<le> 1 \<and>
         0 \<le> news_count n \<and>
         0 \<le> source_credibility n \<and> source_credibility n \<le> 1 \<and>
         - 1 \<le> twitter_sentiment s \<and> twitter_sentiment s \<le> 1 \<and>
         - 1 \<le> reddit_sentiment s \<and> reddit_sentiment s \<le> 1 \<and>
         0 \<le> engagement_momentum s \<and> engagement_momentum s \<le> 1 \<and>
         list_all influencer_schema (influencer_signals s) \<and>
         - 1 \<le> price_momentum t \<and> price_momentum t \<le> 1 \<and>
         - 1 \<le> volume_trend t \<and> volume_trend t \<le> 1 \<and>
         0 \<le> market_efficiency t \<and> market_efficiency t \<le> 1 \<and>
         - 1 \<le> correlation_score c \<and> correlation_score c \<le> 1)"

subsection \<open>Configuration constants\<close>

definition min_sentiment_gap :: real where "min_sentiment_gap = 0.20"
definition sa_min_liquidity :: real where "sa_min_liquidity = 2000"
definition min_time_buffer :: real where "min_time_buffer = 12 * 60 * 60 * 1000"
definition sa_max_position :: real where "sa_max_position = 100"
definition stop_loss_threshold :: real where "stop_loss_threshold = 0.15"
definition max_single_trade :: real where "max_single_trade = 100"
definition kelly_fraction :: real where "kelly_fraction = 0.25"

text \<open>\<open>SCORING_WEIGHTS\<close>, in the field order of \<open>ScoringFactors\<close>.\<close>

definition SCORING_WEIGHTS :: ScoringFactors where
  "SCORING_WEIGHTS = \<lparr> sentiment_edge = 0.40, technical_momentum = 0.25,
     liquidity_quality = 0.20, timing_urgency = 0.10, news_catalyst = 0.05 \<rparr>"

subsection \<open>Scoring functions\<close>

text \<open>
  The weighted blend of the three sentiment sources; the source writes it out twice, in
  \<open>calculateSentimentEdge\<close> and in the tool, with the same weights.
\<close>

definition aggregatedSentiment :: "IntelligenceData \<Rightarrow> real" where
  "aggregatedSentiment i =
     sentiment_score (newsIntelligence i) * 0.3 +
     twitter_sentiment (socialIntelligence i) * 0.4 +
     reddit_sentiment (socialIntelligence i) * 0.3"

definition calculateSentimentEdge :: "IntelligenceData \<Rightarrow> MarketContext \<Rightarrow> real" where
  "calculateSentimentEdge i m =
     (let marketSentiment = (currentPrice m - 0.5) * 2;
          sentimentGap = \<bar>aggregatedSentiment i - marketSentiment\<bar>;
          avgConfidence = (news_confidence (newsIntelligence i) + 0.8 + 0.7) / 3
      in sentimentGap * avgConfidence)"

definition calculateTechnicalMomentum :: "IntelligenceData \<Rightarrow> real" where
  "calculateTechnicalMomentum i =
     (let technicals = technical_signals (marketIntelligence i);
          momentum = price_momentum technicals * 0.4 + volume_trend technicals * 0.3 +
                     market_efficiency technicals * 0.3
      in max 0 (min 1 momentum))"

definition calculateLiquidityQuality :: "MarketContext \<Rightarrow> real" where
  "calculateLiquidityQuality m =
     (let liquidityScore = min 1 (liquidity m / 10000);
          spreadScore = max 0 (1 - spread m / 0.05);
          volumeScore = min 1 (volume24h m / 2000)
      in liquidityScore * 0.4 + spreadScore * 0.4 + volumeScore * 0.2)"

definition calculateTimingUrgency :: "MarketContext \<Rightarrow> real" where
  "calculateTimingUrgency m =
     (let hoursToClose = timeToClose m / (1000 * 60 * 60)
      in if hoursToClose < 6 then 0.3
         else if hoursToClose > 48 then 0.6
         else if hoursToClose \<ge> 12 \<and> hoursToClose \<le> 24 then 1.0
         else 0.7)"

definition calculateNewsCatalyst :: "IntelligenceData \<Rightarrow> real" where
  "calculateNewsCatalyst i =
     (let news = newsIntelligence i;
          catalystScore = (if breaking_news news then 0.4 else 0);
          volumeScore = min 0.3 (news_count news / 10);
          credibilityScore = source_credibility news * 0.3
      in min 1 (catalystScore + volumeScore + credibilityScore))"

definition weightedScore :: "ScoringFactors \<Rightarrow> real" where
  "weightedScore factors =
     sentiment_edge factors * sentiment_edge SCORING_WEIGHTS +
     technical_momentum factors * technical_momentum SCORING_WEIGHTS +
     liquidity_quality factors * liquidity_quality SCORING_WEIGHTS +
     timing_urgency factors * timing_urgency SCORING_WEIGHTS +
     news_catalyst factors * news_catalyst SCORING_WEIGHTS"

definition calculateFactors :: "IntelligenceData \<Rightarrow> MarketContext \<Rightarrow> ScoringFactors" where
  "calculateFactors i m = \<lparr> sentiment_edge = calculateSentimentEdge i m,
     technical_momentum = calculateTechnicalMomentum i,
     liquidity_quality = calculateLiquidityQuality m,
     timing_urgency = calculateTimingUrgency m,
     news_catalyst = calculateNewsCatalyst i \<rparr>"

definition calculateMultiFactorScore :: "IntelligenceData \<Rightarrow> MarketContext \<Rightarrow> Scoring" where
  "calculateMultiFactorScore i m =
     (let factors = calculateFactors i m
      in \<lparr> totalScore = weightedScore factors, breakdown = factors \<rparr>)"

definition determineStrategy :: "IntelligenceData \<Rightarrow> MarketContext \<Rightarrow> Scoring \<Rightarrow> strategy" where
  "determineStrategy i m scoring =
     (let b = breakdown scoring
      in if breaking_news (newsIntelligence i) \<and> news_catalyst b > 0.6 \<and> sentiment_edge b > 0.3
         then breaking_news_hunter
         else if sentiment_edge b > min_sentiment_gap \<and> liquidity m \<ge> sa_min_liquidity \<and>
                 timeToClose m \<ge> min_time_buffer
         then sentiment_arbitrage
         else none)"

definition calculatePositionSizing :: "int \<Rightarrow> strategy \<Rightarrow> MarketContext \<Rightarrow> RiskAssessment" where
  "calculatePositionSizing conf strat m =
     (let maxPosition = (if strat = breaking_news_hunter then 75
                         else if strat = sentiment_arbitrage then sa_max_position
                         else max_single_trade);
          baseSize = (if strat = breaking_news_hunter then 40 else 50);
          confidenceMultiplier = max 0 ((of_int conf - 50) / 50);
          confidenceAdjustedSize = baseSize * (0.5 + confidenceMultiplier);
          kellySize = confidenceAdjustedSize * kelly_fraction;
          recommendedSize = min kellySize maxPosition;
          riskFactors =
            (if liquidity m < 5000 then [''Low liquidity''] else []) @
            (if spread m > 0.03 then [''High spread''] else []) @
            (if timeToClose m < 24 * 60 * 60 * 1000 then [''Short time to close''] else []) @
            (if conf < 70 then [''Moderate confidence''] else [])
      in \<lparr> max_position_size = maxPosition,
           recommended_size = recommendedSize,
           stop_loss_price = (if strat = breaking_news_hunter
                              then Some (currentPrice m * (1 - stop_loss_threshold)) else None),
           take_profit_price = None,
           risk_factors = riskFactors,
           confidence_adjusted_size = confidenceAdjustedSize \<rparr>)"

text \<open>
  \<open>generateTradeReasoning\<close> formats numbers into text; the two formatters
  (\<open>toFixed(1)\<close> on a number and the decimal text of an array length) are parameters.
\<close>

definition generateTradeReasoning ::
  "(real \<Rightarrow> string) \<Rightarrow> (nat \<Rightarrow> string) \<Rightarrow> strategy \<Rightarrow> ScoringFactors \<Rightarrow> RiskAssessment \<Rightarrow>
   IntelligenceData \<Rightarrow> string" where
  "generateTradeReasoning toFixed1 showLen strat b risk i =
     (let sigs = influencer_signals (socialIntelligence i);
          reasons =
            (if strat = sentiment_arbitrage
             then [''Sentiment Arbitrage: '' @ toFixed1 (sentiment_edge b * 100) @
                   ''% sentiment edge detected'']
             else if strat = breaking_news_hunter
             then [''Breaking News: High urgency catalyst with '' @
                   toFixed1 (news_catalyst b * 100) @ ''% catalyst score'']
             else []) @
            (if technical_momentum b > 0.7
             then [''Strong technical momentum ('' @ toFixed1 (technical_momentum b * 100) @ ''%)'']
             else []) @
            (if liquidity_quality b > 0.8 then [''Excellent liquidity conditions''] else []) @
            (if breaking_news (newsIntelligence i) then [''Breaking news catalyst detected'']
             else []) @
            (if length sigs > 0
             then [''Influencer signals: '' @
                   (if sum_list (map sentiment sigs) / of_nat (length sigs) > 0
                    then ''bullish'' else ''bearish'') @
                   '' ('' @ showLen (length sigs) @ '' signals)'']
             else []) @
            (if length (risk_factors risk) > 0
             then [''Risk factors: '' @ join '', '' (risk_factors risk)]
             else [])
      in join ''. '' reasons)"

subsection \<open>Primary market filters\<close>

text \<open>
  Each \<open>if\<close> of the filter block is one \<open>check\<close>: it clears \<open>filtersPassed\<close> and pushes
  its reason when the filter fails, and leaves the state alone otherwise.
\<close>

definition check :: "bool \<Rightarrow> string \<Rightarrow> bool \<times> string list \<Rightarrow> bool \<times> string list" where
  "check fails reason st = (if fails then (False, snd st @ [reason]) else st)"

definition applyMarketFilters :: "MarketContext \<Rightarrow> bool \<times> string list" where
  "applyMarketFilters m =
     check (spread m > 0.05) ''Spread too wide''
       (check (volume24h m < 500) ''Insufficient daily volume''
         (check (\<not> orderBookEnabled m) ''Order book not enabled''
           (check (timeToClose m > 72 * 60 * 60 * 1000) ''Too much time until close''
             (check (liquidity m < 1000) ''Insufficient liquidity'' (True, [])))))"

subsection \<open>The tool\<close>

definition zeroFactors :: ScoringFactors where
  "zeroFactors = \<lparr> sentiment_edge = 0, technical_momentum = 0, liquidity_quality = 0,
     timing_urgency = 0, news_catalyst = 0 \<rparr>"

definition decideAction :: "strategy \<Rightarrow> int \<Rightarrow> IntelligenceData \<Rightarrow> action \<times> string option" where
  "decideAction strat conf i =
     (if strat \<noteq> none \<and> conf \<ge> 70
      then (if aggregatedSentiment i > 0.1 then (BUY, Some ''Yes'')
            else if aggregatedSentiment i < - 0.1 then (BUY, Some ''No'')
            else (HOLD, None))
      else (NONE, None))"

definition decideUrgency :: "strategy \<Rightarrow> int \<Rightarrow> Scoring \<Rightarrow> urgency" where
  "decideUrgency strat conf scoring =
     (if strat = breaking_news_hunter then IMMEDIATE
      else if conf > 85 \<and> timing_urgency (breakdown scoring) < 0.5 then IMMEDIATE
      else if conf < 75 then PATIENT
      else NORMAL)"

definition marketDecisionTool ::
  "(real \<Rightarrow> string) \<Rightarrow> (nat \<Rightarrow> string) \<Rightarrow> MarketContext \<Rightarrow> IntelligenceData \<Rightarrow> DecisionOutput" where
  "marketDecisionTool toFixed1 showLen m i =
     (let (filtersPassed, filtersPassedReasons) = applyMarketFilters m
      in if \<not> filtersPassed
         then \<lparr> decision = \<lparr> action = NONE, outcome = None, confidence = 0, position_size = 0,
                    reasoning = ''Market filters failed: '' @ join '', '' filtersPassedReasons,
                    strategy = none, execution_urgency = PATIENT \<rparr>,
                 risk_assessment = \<lparr> max_position_size = 0, recommended_size = 0,
                    stop_loss_price = None, take_profit_price = None,
                    risk_factors = filtersPassedReasons, confidence_adjusted_size = 0 \<rparr>,
                 scoring_breakdown = zeroFactors,
                 total_score = 0,
                 market_filters_passed = False,
                 recommended_for_execution = False \<rparr>
         else
           (let scoring = calculateMultiFactorScore i m;
                strat = determineStrategy i m scoring;
                conf = round (totalScore scoring * 100);
                (act, outc) = decideAction strat conf i;
                riskAssessment = calculatePositionSizing conf strat m;
                executionUrgency = decideUrgency strat conf scoring
            in \<lparr> decision = \<lparr> action = act, outcome = outc, confidence = conf,
                      position_size = (if act \<noteq> NONE then recommended_size riskAssessment else 0),
                      reasoning = generateTradeReasoning toFixed1 showLen strat
                                    (breakdown scoring) riskAssessment i,
                      strategy = strat, execution_urgency = executionUrgency \<rparr>,
                   risk_assessment = riskAssessment,
                   scoring_breakdown = breakdown scoring,
                   total_score = totalScore scoring,
                   market_filters_passed = filtersPassed,
                   recommended_for_execution = (act \<noteq> NONE \<and> conf \<ge> 70) \<rparr>))"

text \<open>An input that the schema accepts and that passes every market filter.\<close>

definition edge_market :: MarketContext where
  "edge_market = \<lparr> marketId = ''m1'', title = ''t'', currentPrice = 1,
     impliedProbability = 100, liquidity = 10000, volume24h = 2000,
     timeToClose = 64800000, spread = 0, orderBookEnabled = True \<rparr>"

definition edge_intelligence :: IntelligenceData where
  "edge_intelligence = \<lparr>
     newsIntelligence = \<lparr> sentiment_score = - 1, news_confidence = 1, breaking_news = True,
        news_count = 10, source_credibility = 1 \<rparr>,
     socialIntelligence = \<lparr> twitter_sentiment = - 1, reddit_sentiment = - 1,
        engagement_momentum = 0, trending_topics = [], influencer_signals = [] \<rparr>,
     marketIntelligence = \<lparr>
        technical_signals = \<lparr> price_momentum = 1, volume_trend = 1, market_efficiency = 1 \<rparr>,
        cross_market_signals = \<lparr> correlation_score = 0, consensus_direction = neutral \<rparr> \<rparr> \<rparr>"

text \<open>A market that is too thin (liquidity 500) and whose spread is too wide.\<close>

definition thin_market :: MarketContext where
  "thin_market = \<lparr> marketId = ''m2'', title = ''t'', currentPrice = 0.5,
     impliedProbability = 50, liquidity = 500, volume24h = 2000,
     timeToClose = 64800000, spread = 0.1, orderBookEnabled = True \<rparr>"

text \<open>The mirror image of the first input: every source fully positive, price 0.\<close>

definition bull_market :: MarketContext where
  "bull_market = edge_market\<lparr> currentPrice := 0, impliedProbability := 0 \<rparr>"

definition bull_intelligence :: IntelligenceData where
  "bull_intelligence = \<lparr>
     newsIntelligence = \<lparr> sentiment_score = 1, news_confidence = 1, breaking_news = True,
        news_count = 10, source_credibility = 1 \<rparr>,
     socialIntelligence = \<lparr> twitter_sentiment = 1, reddit_sentiment = 1,
        engagement_momentum = 0, trending_topics = [], influencer_signals = [] \<rparr>,
     marketIntelligence = \<lparr>
        technical_signals = \<lparr> price_momentum = 1, volume_trend = 1, market_efficiency = 1 \<rparr>,
        cross_market_signals = \<lparr> correlation_score = 0, consensus_direction = neutral \<rparr> \<rparr> \<rparr>"

section \<open>Execution agent: security manager and trade execution tool\<close>

subsection \<open>Security manager\<close>

record WalletSecurityContext =
  dailySpentAmount :: real
  concurrentTradesCount :: int
  lastResetDate :: string
  emergencyStopActive :: bool

record PositionLimits =
  maxDailySpend :: real
  maxSingleTrade :: real
  maxTotalExposure :: real
  maxConcurrentTrades :: int
  dailyLossLimit :: real

definition SECURITY_LIMITS :: PositionLimits where
  "SECURITY_LIMITS = \<lparr> maxDailySpend = 300, maxSingleTrade = 100, maxTotalExposure = 300,
     maxConcurrentTrades = 3, dailyLossLimit = 100 \<rparr>"

record Validation =
  valid :: bool
  reason :: "string option"

text \<open>
  \<open>validateTradeAmount\<close>. The amount arrives as text; \<open>parseFloat\<close> and the conversion
  of a number to text inside a template string (\<open>str\<close>) are parameters. \<open>today\<close> is
  \<open>new Date().toDateString()\<close> at the time of the call.
\<close>

definition validateTradeAmount ::
  "(string \<Rightarrow> real) \<Rightarrow> (real \<Rightarrow> string) \<Rightarrow> string \<Rightarrow> string \<Rightarrow> WalletSecurityContext \<Rightarrow>
   Validation \<times> WalletSecurityContext" where
  "validateTradeAmount parseFloat str today amount c =
     (if emergencyStopActive c
      then (\<lparr> valid = False, reason = Some ''Emergency stop is active'' \<rparr>, c)
      else
        (let tradeAmount = parseFloat amount;
             c1 = (if today \<noteq> lastResetDate c
                   then c\<lparr> dailySpentAmount := 0, lastResetDate := today \<rparr> else c)
         in if tradeAmount > maxSingleTrade SECURITY_LIMITS
            then (\<lparr> valid = False, reason = Some (''Trade amount $'' @ amount @
                       '' exceeds max single trade limit $'' @
                       str (maxSingleTrade SECURITY_LIMITS)) \<rparr>, c1)
            else if dailySpentAmount c1 + tradeAmount > maxDailySpend SECURITY_LIMITS
            then (\<lparr> valid = False, reason = Some
                      (''Trade would exceed daily spending limit. Daily spent: $'' @
                       str (dailySpentAmount c1) @ '', Trade: $'' @ str tradeAmount @
                       '', Limit: $'' @ str (maxDailySpend SECURITY_LIMITS)) \<rparr>, c1)
            else if concurrentTradesCount c1 \<ge> maxConcurrentTrades SECURITY_LIMITS
            then (\<lparr> valid = False, reason = Some
                      (''Maximum concurrent trades limit reached: '' @
                       str (of_int (maxConcurrentTrades SECURITY_LIMITS))) \<rparr>, c1)
            else (\<lparr> valid = True, reason = None \<rparr>, c1)))"

definition recordTradeStart :: "(string \<Rightarrow> real) \<Rightarrow> string \<Rightarrow> WalletSecurityContext \<Rightarrow>
    WalletSecurityContext" where
  "recordTradeStart parseFloat amount c =
     c\<lparr> dailySpentAmount := dailySpentAmount c + parseFloat amount,
        concurrentTradesCount := concurrentTradesCount c + 1 \<rparr>"

definition recordTradeEnd :: "WalletSecurityContext \<Rightarrow> WalletSecurityContext" where
  "recordTradeEnd c = c\<lparr> concurrentTradesCount := max 0 (concurrentTradesCount c - 1) \<rparr>"

definition activateEmergencyStop :: "WalletSecurityContext \<Rightarrow> WalletSecurityContext" where
  "activateEmergencyStop c = c\<lparr> emergencyStopActive := True \<rparr>"

text \<open>
  The validation order as the specification words it: the emergency stop first, then the
  day rollover, then the first failing check of the ordered list per-trade cap, daily cap,
  concurrent-trade cap.
\<close>

fun first_failing :: "(bool \<times> string) list \<Rightarrow> string option" where
  "first_failing [] = None"
| "first_failing ((fails, r) # cs) = (if fails then Some r else first_failing cs)"

definition day_rollover :: "string \<Rightarrow> WalletSecurityContext \<Rightarrow> WalletSecurityContext" where
  "day_rollover today c =
     (if today = lastResetDate c then c else c\<lparr> dailySpentAmount := 0, lastResetDate := today \<rparr>)"

definition spec_validate ::
  "(string \<Rightarrow> real) \<Rightarrow> (real \<Rightarrow> string) \<Rightarrow> string \<Rightarrow> string \<Rightarrow> WalletSecurityContext \<Rightarrow>
   Validation \<times> WalletSecurityContext" where
  "spec_validate parseFloat str today amount c =
     (if emergencyStopActive c
      then (\<lparr> valid = False, reason = Some ''Emergency stop is active'' \<rparr>, c)
      else
        (let c1 = day_rollover today c;
             a = parseFloat amount;
             failing = first_failing
               [(a > 100,
                 ''Trade amount $'' @ amount @ '' exceeds max single trade limit $'' @ str 100),
                (dailySpentAmount c1 + a > 300,
                 ''Trade would exceed daily spending limit. Daily spent: $'' @
                 str (dailySpentAmount c1) @ '', Trade: $'' @ str a @ '', Limit: $'' @ str 300),
                (concurrentTradesCount c1 \<ge> 3,
                 ''Maximum concurrent trades limit reached: '' @ str 3)]
         in (\<lparr> valid = (failing = None), reason = failing \<rparr>, c1)))"

subsection \<open>Trade execution tool\<close>

datatype trade_status = PENDING | EXECUTED | FAILED | CANCELLED

text \<open>
  What \<open>EVMMCPClient.callTool\<close> returns: it never throws; a failed call carries an error
  text.
\<close>

datatype 'p call_result = CallOk 'p | CallFailed string

record TradePayload =
  p_transactionHash :: "string option"
  p_executionPrice :: "string option"
  p_gasUsed :: "string option"
  p_actualSlippage :: "string option"

text \<open>
  The fields of the tool's input that the control flow and the persisted record use. The
  outcome index and the minimum-shares figure only shape the arguments of the
  \<open>write_contract\<close> call and are left to the backend below.
\<close>

record TradeExecutionInput =
  ti_marketId :: string
  ti_action :: action
  ti_outcome :: string
  amount :: string
  ti_confidence :: real
  ti_reasoning :: string

record ExecutionResult =
  success :: bool
  transactionHash :: "string option"
  executedAmount :: "string option"
  executionPrice :: "string option"
  gasUsed :: "string option"
  slippage :: "real option"
  error :: "string option"
  retryCount :: "nat option"

record SecurityChecks =
  limits_passed :: bool
  daily_spent :: real
  concurrent_trades :: int
  security_warnings :: "string list"

text \<open>The tool's result; the wall-clock \<open>execution_time\<close> is left out.\<close>

record ExecutionOutput =
  execution_result :: ExecutionResult
  security_checks :: SecurityChecks
  database_recorded :: bool
  monitoring_active :: bool

text \<open>The calls a run makes on its collaborators, in order.\<close>

datatype event =
    CallTool string
  | RecordTradeStart
  | RepoCreate
  | Sleep nat
  | StartMonitor string
  | RepoUpdateStatus string trade_status
  | RecordTradeEnd
  | ActivateEmergencyStop

text \<open>
  What the collaborators answer during one run: the date, the wallet address of the
  process environment, the balance call, the repository (a thrown message or a result) and
  the backend's answer to the approval and to the submission of each attempt.
\<close>

record ExecEnv =
  today :: string
  walletAddress :: "string option"
  getBalance :: "string option call_result"
  repoCreate :: "string + string"
  approveSpending :: "nat \<Rightarrow> unit call_result"
  writeContract :: "nat \<Rightarrow> TradePayload call_result"
  repoUpdate :: "string option"

record ExecState =
  security :: WalletSecurityContext
  db :: "string \<rightharpoonup> trade_status"
  trace :: "event list"

definition maxRetries :: nat where "maxRetries = 3"
definition retryDelayMs :: nat where "retryDelayMs = 5000"

definition emit :: "event list \<Rightarrow> ExecState \<Rightarrow> ExecState" where
  "emit evs s = s\<lparr> trace := trace s @ evs \<rparr>"

definition orElse :: "string option \<Rightarrow> string \<Rightarrow> string" where
  "orElse v d = (case v of None \<Rightarrow> d | Some t \<Rightarrow> if t = [] then d else t)"

definition noResult :: ExecutionResult where
  "noResult = \<lparr> success = False, transactionHash = None, executedAmount = None,
     executionPrice = None, gasUsed = None, slippage = None, error = None,
     retryCount = None \<rparr>"

text \<open>One pass through the body of the retry loop's \<open>try\<close>: a thrown message, or the payload.\<close>

definition attempt :: "ExecEnv \<Rightarrow> nat \<Rightarrow> ExecState \<Rightarrow> (string + TradePayload) \<times> ExecState" where
  "attempt env n s =
     (case approveSpending env n of
        CallFailed e \<Rightarrow>
          (Inl (''Token approval failed: '' @ e), emit [CallTool ''approve_token_spending''] s)
      | CallOk u \<Rightarrow>
          (case writeContract env n of
             CallOk p \<Rightarrow>
               (Inr p, emit [CallTool ''approve_token_spending'', CallTool ''write_contract''] s)
           | CallFailed e \<Rightarrow>
               (Inl (orElse (Some e) ''Trade execution failed''),
                emit [CallTool ''approve_token_spending'', CallTool ''write_contract''] s)))"

text \<open>
  The retry loop, on the loop state (\<open>retryCount\<close>, \<open>executionResult\<close>) and the run's state.
  The backend is asked for the answers of attempt number \<open>retryCount\<close>.
\<close>

function retryLoop ::
  "(string \<Rightarrow> real) \<Rightarrow> ExecEnv \<Rightarrow> TradeExecutionInput \<Rightarrow> nat \<Rightarrow> ExecutionResult \<Rightarrow> ExecState \<Rightarrow>
   nat \<times> ExecutionResult \<times> ExecState" where
  "retryLoop parseFloat env ti rc res s =
     (if rc \<le> maxRetries \<and> \<not> success res
      then (case attempt env rc s of
              (Inr p, s1) \<Rightarrow>
                (rc, \<lparr> success = True, transactionHash = p_transactionHash p,
                       executedAmount = Some (amount ti), executionPrice = p_executionPrice p,
                       gasUsed = p_gasUsed p,
                       slippage = Some (parseFloat (orElse (p_actualSlippage p) ''0'')),
                       error = None, retryCount = Some rc \<rparr>, s1)
            | (Inl errorMessage, s1) \<Rightarrow>
                (if rc + 1 \<le> maxRetries
                 then retryLoop parseFloat env ti (rc + 1) res (emit [Sleep retryDelayMs] s1)
                 else retryLoop parseFloat env ti (rc + 1)
                        (noResult\<lparr> error := Some errorMessage, retryCount := Some (rc + 1) \<rparr>) s1))
      else (rc, res, s))"
  by pat_completeness auto
termination
  by (relation "measure (\<lambda>(pf, env, ti, rc, res, s). Suc maxRetries - rc)") auto

declare retryLoop.simps [simp del]

text \<open>Steps 7 and 8 of the run: release the slot and build the result.\<close>

definition finishTrade :: "nat \<Rightarrow> ExecutionResult \<Rightarrow> bool \<Rightarrow> ExecState \<Rightarrow>
    ((string \<times> nat) + ExecutionOutput) \<times> ExecState" where
  "finishTrade rc res monitoringActive s =
     (let s1 = emit [RecordTradeEnd] (s\<lparr> security := recordTradeEnd (security s) \<rparr>)
      in (Inr \<lparr> execution_result = res\<lparr> retryCount := Some rc \<rparr>,
               security_checks = \<lparr> limits_passed = True,
                 daily_spent = dailySpentAmount (security s1),
                 concurrent_trades = concurrentTradesCount (security s1),
                 security_warnings = [] \<rparr>,
               database_recorded = True,
               monitoring_active = monitoringActive \<rparr>, s1))"

text \<open>
  Steps 5 and 6: the retry loop, then either the detached confirmation watch (whose later
  writes are not part of the run) or the write of the FAILED status, which may throw.
\<close>

definition executeAndSettle ::
  "(string \<Rightarrow> real) \<Rightarrow> ExecEnv \<Rightarrow> TradeExecutionInput \<Rightarrow> string \<Rightarrow> ExecState \<Rightarrow>
   ((string \<times> nat) + ExecutionOutput) \<times> ExecState" where
  "executeAndSettle parseFloat env ti savedId s =
     (let (rc, res, s1) = retryLoop parseFloat env ti 0 noResult s;
          monitoringActive = (success res \<and> orElse (transactionHash res) [] \<noteq> [])
      in if monitoringActive
         then finishTrade rc res True (emit [StartMonitor (orElse (transactionHash res) [])] s1)
         else (case repoUpdate env of
                 Some msg \<Rightarrow> (Inl (msg, rc), emit [RepoUpdateStatus savedId FAILED] s1)
               | None \<Rightarrow>
                   finishTrade rc res False
                     (emit [RepoUpdateStatus savedId FAILED]
                        (s1\<lparr> db := (db s1)(savedId \<mapsto> FAILED) \<rparr>))))"

text \<open>
  The body of the outer \<open>try\<close> after a passed validation: a thrown message with the value
  of \<open>retryCount\<close> at that point, or the result.
\<close>

definition tradeBody ::
  "(string \<Rightarrow> real) \<Rightarrow> (real \<Rightarrow> string) \<Rightarrow> ExecEnv \<Rightarrow> TradeExecutionInput \<Rightarrow> ExecState \<Rightarrow>
   ((string \<times> nat) + ExecutionOutput) \<times> ExecState" where
  "tradeBody parseFloat str env ti s =
     (if orElse (walletAddress env) [] = []
      then (Inl (''POLYMARKET_WALLET_ADDRESS environment variable is required - no mock addresses allowed'', 0), s)
      else
        (let s1 = emit [CallTool ''get_balance''] s
         in case getBalance env of
              CallFailed e \<Rightarrow> (Inl (''Wallet balance check failed: '' @ e, 0), s1)
            | CallOk b \<Rightarrow>
                (let availableBalance = parseFloat (orElse b ''0'');
                     requiredAmount = parseFloat (amount ti)
                 in if availableBalance < requiredAmount
                    then (Inl (''Insufficient USDC balance: '' @ str availableBalance @
                               '' < '' @ str requiredAmount, 0), s1)
                    else
                      (let s2 = emit [RecordTradeStart]
                                  (s1\<lparr> security := recordTradeStart parseFloat (amount ti)
                                                      (security s1) \<rparr>);
                           s3 = emit [RepoCreate] s2
                       in case repoCreate env of
                            Inl msg \<Rightarrow> (Inl (msg, 0), s3)
                          | Inr savedId \<Rightarrow>
                              executeAndSettle parseFloat env ti savedId
                                (s3\<lparr> db := (db s3)(savedId \<mapsto> PENDING) \<rparr>)))))"

definition failureOutput :: "string option \<Rightarrow> nat \<Rightarrow> string list \<Rightarrow> ExecState \<Rightarrow> ExecutionOutput" where
  "failureOutput err rc warnings s =
     \<lparr> execution_result = noResult\<lparr> error := err, retryCount := Some rc \<rparr>,
       security_checks = \<lparr> limits_passed = False,
         daily_spent = dailySpentAmount (security s),
         concurrent_trades = concurrentTradesCount (security s),
         security_warnings = warnings \<rparr>,
       database_recorded = False,
       monitoring_active = False \<rparr>"

definition tradeExecutionTool ::
  "(string \<Rightarrow> real) \<Rightarrow> (real \<Rightarrow> string) \<Rightarrow> ExecEnv \<Rightarrow> TradeExecutionInput \<Rightarrow> ExecState \<Rightarrow>
   ExecutionOutput \<times> ExecState" where
  "tradeExecutionTool parseFloat str env ti s0 =
     (let (v, c1) = validateTradeAmount parseFloat str (today env) (amount ti) (security s0);
          s1 = s0\<lparr> security := c1 \<rparr>
      in if \<not> valid v
         then (failureOutput (reason v) 0 [orElse (reason v) ''Security validation failed''] s1, s1)
         else
           (case tradeBody parseFloat str env ti s1 of
              (Inr out, s2) \<Rightarrow> (out, s2)
            | (Inl (errorMessage, rc), s2) \<Rightarrow>
                (let s3 = emit [RecordTradeEnd] (s2\<lparr> security := recordTradeEnd (security s2) \<rparr>);
                     s4 = (if sublist ''insufficient'' errorMessage \<or>
                              sublist ''unauthorized'' errorMessage
                           then emit [ActivateEmergencyStop]
                                  (s3\<lparr> security := activateEmergencyStop (security s3) \<rparr>)
                           else s3)
                 in (failureOutput (Some errorMessage) rc [errorMessage] s4, s4))))"

subsection \<open>Reading a run\<close>

text \<open>
  The outcome of attempt \<open>n\<close> and the backend calls it makes, read off the environment;
  \<open>attempt\<close> is these two together (lemma \<open>attempt_eq\<close>).
\<close>

definition attempt_result :: "ExecEnv \<Rightarrow> nat \<Rightarrow> string + TradePayload" where
  "attempt_result env n =
     (case approveSpending env n of
        CallFailed e \<Rightarrow> Inl (''Token approval failed: '' @ e)
      | CallOk u \<Rightarrow>
          (case writeContract env n of
             CallOk p \<Rightarrow> Inr p
           | CallFailed e \<Rightarrow> Inl (orElse (Some e) ''Trade execution failed'')))"

definition attempt_calls :: "ExecEnv \<Rightarrow> nat \<Rightarrow> event list" where
  "attempt_calls env n =
     (case approveSpending env n of
        CallFailed e \<Rightarrow> [CallTool ''approve_token_spending'']
      | CallOk u \<Rightarrow> [CallTool ''approve_token_spending'', CallTool ''write_contract''])"

text \<open>The events that a run adds to the trace.\<close>

definition new_events :: "ExecState \<Rightarrow> ExecState \<Rightarrow> event list" where
  "new_events s0 s1 = drop (length (trace s0)) (trace s1)"

text \<open>
  Sample conversions between numbers and text for concrete runs: the text of the numbers
  that occur there, and their values.
\<close>

definition sample_str :: "real \<Rightarrow> string" where
  "sample_str x = (if x = 250 then ''250'' else if x = 60 then ''60''
                   else if x = 300 then ''300'' else if x = 100 then ''100''
                   else if x = 50 then ''50'' else if x = 10 then ''10''
                   else if x = 3 then ''3'' else ''0'')"

definition sample_parseFloat :: "string \<Rightarrow> real" where
  "sample_parseFloat t = (if t = ''250'' then 250 else if t = ''60'' then 60
                          else if t = ''300'' then 300 else if t = ''100'' then 100
                          else if t = ''50'' then 50 else if t = ''10'' then 10
                          else if t = ''1000'' then 1000 else 0)"

text \<open>A ledger with 250 spent today and no open trade.\<close>

definition ledger_250 :: WalletSecurityContext where
  "ledger_250 = \<lparr> dailySpentAmount = 250, concurrentTradesCount = 0,
     lastResetDate = ''Tue Nov 03 2026'', emergencyStopActive = False \<rparr>"

text \<open>A fresh day's ledger with one trade of another run in flight.\<close>

definition ledger_busy :: WalletSecurityContext where
  "ledger_busy = \<lparr> dailySpentAmount = 50, concurrentTradesCount = 1,
     lastResetDate = ''Tue Nov 03 2026'', emergencyStopActive = False \<rparr>"

definition start_state :: "WalletSecurityContext \<Rightarrow> ExecState" where
  "start_state c = \<lparr> security = c, db = Map.empty, trace = [] \<rparr>"

definition trade_50 :: TradeExecutionInput where
  "trade_50 = \<lparr> ti_marketId = ''m1'', ti_action = BUY, ti_outcome = ''Yes'', amount = ''50'',
     ti_confidence = 80, ti_reasoning = ''r'' \<rparr>"

text \<open>A backend that accepts every approval and fails every submission.\<close>

definition failing_env :: ExecEnv where
  "failing_env = \<lparr> today = ''Tue Nov 03 2026'', walletAddress = Some ''0xabc'',
     getBalance = CallOk (Some ''1000''), repoCreate = Inr ''t1'',
     approveSpending = (\<lambda>n. CallOk ()),
     writeContract = (\<lambda>n. CallFailed (if n = 3 then ''nonce too low'' else ''reverted'')),
     repoUpdate = None \<rparr>"

text \<open>A wallet that holds 10 when 50 are needed.\<close>

definition poor_env :: ExecEnv where
  "poor_env = failing_env\<lparr> getBalance := CallOk (Some ''10'') \<rparr>"

section \<open>Reddit intelligence tool: circuit breaker and signal cache\<close>

subsection \<open>The world outside\<close>

text \<open>
  \<open>Date.now()\<close> reads the clock of the world; an operation may let time pass and may
  make network requests.
\<close>

record world =
  clock :: int
  requests :: nat

subsection \<open>Circuit breaker\<close>

record breaker_config =
  failureThreshold :: nat
  recoveryTimeout :: int

text \<open>The configuration when the environment overrides nothing.\<close>

definition default_config :: breaker_config where
  "default_config = \<lparr> failureThreshold = 5, recoveryTimeout = 5 * 60000 \<rparr>"

record breaker =
  failures :: nat
  lastFailureTime :: int


definition isOpen :: "breaker_config \<Rightarrow> breaker \<Rightarrow> int \<Rightarrow> bool" where
  "isOpen cfg b now \<longleftrightarrow>
     failures b \<ge> failureThreshold cfg \<and> now - lastFailureTime b < recoveryTimeout cfg"

definition onSuccess :: "breaker \<Rightarrow> breaker" where
  "onSuccess b = b\<lparr> failures := 0 \<rparr>"

definition onFailure :: "int \<Rightarrow> breaker \<Rightarrow> breaker" where
  "onFailure now b = b\<lparr> failures := failures b + 1, lastFailureTime := now \<rparr>"

text \<open>
  \<open>execute\<close>: the operation is a function of the world that either throws (\<open>Inl\<close>) or
  returns; a throw is passed on to the caller after \<open>onFailure\<close>.
\<close>

definition execute ::
  "breaker_config \<Rightarrow> (world \<Rightarrow> (string + 'a) \<times> world) \<Rightarrow> 'a \<Rightarrow> breaker \<times> world \<Rightarrow>
   (string + 'a) \<times> breaker \<times> world" where
  "execute cfg operation fallback bw =
     (let (b, w) = bw
      in if isOpen cfg b (clock w) then (Inr fallback, b, w)
         else (case operation w of
                 (Inr result, w1) \<Rightarrow> (Inr result, onSuccess b, w1)
               | (Inl err, w1) \<Rightarrow> (Inl err, onFailure (clock w1) b, w1)))"


definition fails_at :: "((world \<Rightarrow> (string + 'a) \<times> world) \<times> world) \<Rightarrow> bool" where
  "fails_at c = (case c of (operation, w) \<Rightarrow> isl (fst (operation w)))"

definition completion_time :: "((world \<Rightarrow> (string + 'a) \<times> world) \<times> world) \<Rightarrow> int" where
  "completion_time c = (case c of (operation, w) \<Rightarrow> clock (snd (operation w)))"

subsection \<open>The cache object\<close>

text \<open>
  The source keeps its entries in an \<open>LRUCache\<close> of the \<open>lru-cache\<close> package, built with
  \<open>max: 100\<close> and a \<open>ttl\<close> of five minutes. The package is not part of the source. The
  cache helpers below therefore take the object's \<open>get\<close>, \<open>set\<close> and \<open>delete\<close> as
  parameters; the tool runs them on the model of this subsection, an association list
  with the most recently used entry first, every entry stamped with the reading of the
  cache object's clock at insertion.
\<close>

record 'v lru_entry =
  lru_value :: 'v
  lru_start :: int

type_synonym 'v lru = "(string \<times> 'v lru_entry) list"

definition lru_max :: nat where "lru_max = 100"
definition lru_ttl :: int where "lru_ttl = 5 * 60 * 1000"

text \<open>
  Modelled from the spec: \<open>delete\<close> of the \<open>lru-cache\<close> package, which is not under the
  source; the entry under the key is removed.
\<close>

definition lru_delete :: "string \<Rightarrow> 'v lru \<Rightarrow> 'v lru" where
  "lru_delete k c = filter (\<lambda>kv. fst kv \<noteq> k) c"

text \<open>
  Modelled from the spec: \<open>get\<close> of the \<open>lru-cache\<close> package, which is not under the
  source. In the specification's words an entry is "read invalid and evicted once now -
  insertion \<ge> TTL" and the "lookup of an expired entry is treated as absent and removed";
  a hit makes the entry the most recently used one. The first argument is the reading of
  the cache object's clock at the lookup.
\<close>

definition lru_get :: "int \<Rightarrow> string \<Rightarrow> 'v lru \<Rightarrow> 'v option \<times> 'v lru" where
  "lru_get libnow k c =
     (case map_of c k of
        None \<Rightarrow> (None, c)
      | Some e \<Rightarrow> if libnow - lru_start e \<ge> lru_ttl then (None, lru_delete k c)
                  else (Some (lru_value e), (k, e) # lru_delete k c))"

text \<open>
  Modelled from the spec: \<open>set\<close> of the \<open>lru-cache\<close> package, which is not under the
  source; "bounded memory via an eviction policy on an LRU basis with a maximum entry
  count, independent of TTL". The first argument is the reading of the cache object's
  clock at the insertion; it need not be the value of \<open>Date.now()\<close> that the source puts
  into the entry's \<open>timestamp\<close>.
\<close>

definition lru_set :: "int \<Rightarrow> string \<Rightarrow> 'v \<Rightarrow> 'v lru \<Rightarrow> 'v lru" where
  "lru_set libnow k v c =
     take lru_max ((k, \<lparr> lru_value = v, lru_start = libnow \<rparr>) # lru_delete k c)"

text \<open>
  Modelled from the spec: the clock of the cache object as the tool's runs read it. The
  specification has one clock ("clock-injectable"), so a run of the tool reads the
  world's clock for both.
\<close>

definition lib_now :: "world \<Rightarrow> int" where
  "lib_now w = clock w"

subsection \<open>Reddit data\<close>

record RedditPost =
  post_title :: string
  post_content :: string
  post_score :: real
  post_subreddit :: string
  post_author :: string
  created_utc :: real
  num_comments :: real
  upvote_ratio :: real
  permalink :: string

record RedditDiscussion =
  kd_title :: string
  kd_content :: string
  kd_score :: real
  kd_subreddit :: string
  kd_engagement :: real
  kd_credibility :: real
  kd_sentiment :: real
  kd_timeRelevance :: real

datatype community = c_bullish | c_bearish | c_neutral | c_divided

record ProcessedRedditData =
  rd_sentiment_score :: real
  rd_confidence :: real
  rd_trending_topics :: "string list"
  key_discussions :: "RedditDiscussion list"
  community_sentiment :: community
  rd_engagement_momentum :: real
  credibility_score :: real
  post_volume :: nat
  average_sentiment :: real
  subreddit_distribution :: "(string \<times> nat) list"
  time_relevance_score :: real

text \<open>
  The neutral zero-signal bundle: the literal that \<open>processRedditData\<close> returns for no
  quality posts, and the fields of the tool's result after an error.
\<close>

definition neutralData :: ProcessedRedditData where
  "neutralData = \<lparr> rd_sentiment_score = 0, rd_confidence = 0, rd_trending_topics = [],
     key_discussions = [], community_sentiment = c_neutral, rd_engagement_momentum = 0,
     credibility_score = 0, post_volume = 0, average_sentiment = 0,
     subreddit_distribution = [], time_relevance_score = 0 \<rparr>"

record RedditOutput =
  out_data :: ProcessedRedditData
  sources :: "string list"
  cached :: bool

record RedditQuery =
  marketTitle :: string
  query_keywords :: "string list"
  timeFilter :: string
  sortBy :: string

subsection \<open>Cache helpers\<close>

record CacheEntry =
  data :: ProcessedRedditData
  timestamp :: int

definition cacheKey :: "string \<Rightarrow> string \<Rightarrow> string" where
  "cacheKey mid queryHash = ''reddit:'' @ mid @ '':'' @ queryHash"

definition cache_ttl :: int where "cache_ttl = 5 * 60 * 1000"

text \<open>
  \<open>getCachedResult\<close> and \<open>setCachedResult\<close>, on any cache object: \<open>cache_get\<close>,
  \<open>cache_delete\<close> and \<open>cache_set\<close> are its operations, \<open>now\<close> is the value of \<open>Date.now()\<close>
  that the helper reads itself.
\<close>

definition getCachedResult ::
  "(string \<Rightarrow> 'c \<Rightarrow> CacheEntry option \<times> 'c) \<Rightarrow> (string \<Rightarrow> 'c \<Rightarrow> 'c) \<Rightarrow>
   int \<Rightarrow> string \<Rightarrow> string \<Rightarrow> 'c \<Rightarrow> ProcessedRedditData option \<times> 'c" where
  "getCachedResult cache_get cache_delete now mid queryHash c =
     (case cache_get (cacheKey mid queryHash) c of
        (None, c1) \<Rightarrow> (None, c1)
      | (Some entry, c1) \<Rightarrow>
          if now - timestamp entry > cache_ttl
          then (None, cache_delete (cacheKey mid queryHash) c1)
          else (Some (data entry), c1))"

definition setCachedResult ::
  "(string \<Rightarrow> CacheEntry \<Rightarrow> 'c \<Rightarrow> 'c) \<Rightarrow> int \<Rightarrow> string \<Rightarrow> string \<Rightarrow> ProcessedRedditData \<Rightarrow>
   'c \<Rightarrow> 'c" where
  "setCachedResult cache_set now mid queryHash d c =
     cache_set (cacheKey mid queryHash) \<lparr> data = d, timestamp = now \<rparr> c"

subsection \<open>The tool\<close>

text \<open>
  \<open>processRedditData\<close>: the quality filter is the source's; what happens to a non-empty
  selection (credibility, sentiment analysis by the language model, aggregation) is the
  parameter \<open>analyse\<close>, which may throw.
\<close>

definition qualityPosts :: "RedditPost list \<Rightarrow> RedditPost list" where
  "qualityPosts posts =
     take 15 (sort_key (\<lambda>p. - (post_score p * upvote_ratio p))
       (filter (\<lambda>p. length (post_content p) > 50 \<or> length (post_title p) > 20)
         (filter (\<lambda>p. post_score p > 5) posts)))"

definition processRedditData ::
  "(RedditPost list \<Rightarrow> world \<Rightarrow> (string + ProcessedRedditData) \<times> world) \<Rightarrow>
   RedditPost list \<Rightarrow> world \<Rightarrow> (string + ProcessedRedditData) \<times> world" where
  "processRedditData analyse posts w =
     (if length (qualityPosts posts) = 0 then (Inr neutralData, w)
      else analyse (qualityPosts posts) w)"

record RedditState =
  cache :: "CacheEntry lru"
  circuitBreaker :: breaker

definition fallbackOutput :: RedditOutput where
  "fallbackOutput = \<lparr> out_data = neutralData, sources = [''fallback''], cached = False \<rparr>"

text \<open>
  The tool's \<open>execute\<close>: \<open>generateQueryHash\<close> (an MD5 digest) and \<open>searchRedditDiscussions\<close>
  are parameters; the breaker's fallback is the empty list of posts; the cache object is
  the model above.
\<close>

definition redditIntelligenceTool ::
  "breaker_config \<Rightarrow> (RedditQuery \<Rightarrow> string) \<Rightarrow>
   (RedditQuery \<Rightarrow> world \<Rightarrow> (string + RedditPost list) \<times> world) \<Rightarrow>
   (RedditPost list \<Rightarrow> world \<Rightarrow> (string + ProcessedRedditData) \<times> world) \<Rightarrow>
   string \<Rightarrow> RedditQuery \<Rightarrow> RedditState \<times> world \<Rightarrow> RedditOutput \<times> RedditState \<times> world" where
  "redditIntelligenceTool cfg generateQueryHash searchRedditDiscussions analyse mid q sw =
     (let (st, w) = sw;
          queryHash = generateQueryHash q
      in case getCachedResult (lru_get (lib_now w)) lru_delete (clock w) mid queryHash
                (cache st) of
           (Some d, c1) \<Rightarrow>
             (\<lparr> out_data = d, sources = [''reddit-cache''], cached = True \<rparr>,
              st\<lparr> cache := c1 \<rparr>, w)
         | (None, c1) \<Rightarrow>
             (case execute cfg (searchRedditDiscussions q) [] (circuitBreaker st, w) of
                (Inl err, b1, w1) \<Rightarrow>
                  (fallbackOutput, st\<lparr> cache := c1, circuitBreaker := b1 \<rparr>, w1)
              | (Inr posts, b1, w1) \<Rightarrow>
                  (case processRedditData analyse posts w1 of
                     (Inl err, w2) \<Rightarrow>
                       (fallbackOutput, st\<lparr> cache := c1, circuitBreaker := b1 \<rparr>, w2)
                   | (Inr processedData, w2) \<Rightarrow>
                       (\<lparr> out_data = processedData, sources = [''reddit-api''], cached = False \<rparr>,
                        st\<lparr> cache := setCachedResult (lru_set (lib_now w2)) (clock w2) mid
                                       queryHash processedData c1,
                            circuitBreaker := b1 \<rparr>, w2))))"

subsection \<open>A failing source\<close>

text \<open>
  A search that fails after 10 ms and one network request, one that succeeds with no
  posts, and five calls of the failing one at seconds 1 to 5.
\<close>

definition failing_search :: "world \<Rightarrow> (string + RedditPost list) \<times> world" where
  "failing_search w = (Inl ''HTTP 503'', w\<lparr> clock := clock w + 10, requests := requests w + 1 \<rparr>)"


definition five_failures :: "((world \<Rightarrow> (string + RedditPost list) \<times> world) \<times> world) list" where
  "five_failures = map (\<lambda>t. (failing_search, \<lparr> clock = t, requests = 0 \<rparr>))
     [1000, 2000, 3000, 4000, 5000]"

text \<open>The breaker after these five failures (lemma \<open>five_failures_run\<close>).\<close>

definition tripped :: breaker where
  "tripped = \<lparr> failures = 5, lastFailureTime = 5010 \<rparr>"

section \<open>Properties of the decision engine\<close>

lemma edge_schema: "market_schema edge_market \<and> intelligence_schema edge_intelligence"
  by (simp add: market_schema_def intelligence_schema_def edge_market_def edge_intelligence_def)

lemma edge_filters: "applyMarketFilters edge_market = (True, [])"
  by (simp add: applyMarketFilters_def check_def edge_market_def)

lemma edge_factors: "calculateFactors edge_intelligence edge_market =
   \<lparr> sentiment_edge = 5 / 3, technical_momentum = 1, liquidity_quality = 1,
     timing_urgency = 1, news_catalyst = 1 \<rparr>"
  by (simp add: calculateFactors_def calculateSentimentEdge_def aggregatedSentiment_def 
     calculateTechnicalMomentum_def calculateLiquidityQuality_def calculateTimingUrgency_def
     calculateNewsCatalyst_def edge_market_def edge_intelligence_def)

lemma technical_range:
  "0 \<le> calculateTechnicalMomentum i \<and> calculateTechnicalMomentum i \<le> 1"
  by (simp add: calculateTechnicalMomentum_def Let_def)

lemma liquidity_range:
  "market_schema m \<Longrightarrow> 0 \<le> calculateLiquidityQuality m \<and> calculateLiquidityQuality m \<le> 1"
  unfolding calculateLiquidityQuality_def market_schema_def Let_def
  by (auto simp: min_def max_def field_simps)

lemma timing_range: "0 \<le> calculateTimingUrgency m \<and> calculateTimingUrgency m \<le> 1"
  by (simp add: calculateTimingUrgency_def Let_def)

lemma catalyst_range:
  "intelligence_schema i \<Longrightarrow> 0 \<le> calculateNewsCatalyst i \<and> calculateNewsCatalyst i \<le> 1"
  unfolding calculateNewsCatalyst_def intelligence_schema_def Let_def
  by (auto simp: min_def max_def field_simps)

lemma sentiment_edge_range:
  assumes m: "market_schema m" and i: "intelligence_schema i"
  shows "0 \<le> calculateSentimentEdge i m \<and> calculateSentimentEdge i m \<le> 5 / 3"
proof -
  let ?g = "\<bar>aggregatedSentiment i - (currentPrice m - 0.5) * 2\<bar>"
  let ?c = "(news_confidence (newsIntelligence i) + 0.8 + 0.7) / 3"
  have a: "- 1 \<le> aggregatedSentiment i \<and> aggregatedSentiment i \<le> 1"
    using i unfolding intelligence_schema_def aggregatedSentiment_def Let_def by linarith
  have p: "0 \<le> currentPrice m \<and> currentPrice m \<le> 1"
    using m unfolding market_schema_def by simp
  have g: "0 \<le> ?g \<and> ?g \<le> 2" using a p by (simp add: abs_le_iff)
  have c: "0 \<le> ?c \<and> ?c \<le> 5 / 6"
    using i unfolding intelligence_schema_def Let_def by simp
  have "?g * ?c \<le> 2 * (5 / 6)" using g c by (intro mult_mono) simp_all
  moreover have "0 \<le> ?g * ?c" using g c by simp
  ultimately show ?thesis by (simp add: calculateSentimentEdge_def Let_def)
qed

lemma weights_sum:
  "sentiment_edge SCORING_WEIGHTS + technical_momentum SCORING_WEIGHTS +
   liquidity_quality SCORING_WEIGHTS + timing_urgency SCORING_WEIGHTS +
   news_catalyst SCORING_WEIGHTS = 1"
  by (simp add: SCORING_WEIGHTS_def)

lemma scenario_B:
  "round (weightedScore \<lparr> sentiment_edge = 0.8, technical_momentum = 0.6,
     liquidity_quality = 0.9, timing_urgency = 0.5, news_catalyst = 0.3 \<rparr> * 100) = 72"
  by (simp add: weightedScore_def SCORING_WEIGHTS_def round_def)

lemma tool_passed:
  "fst (applyMarketFilters m) \<Longrightarrow>
   confidence (decision (marketDecisionTool f g m i)) =
     round (weightedScore (calculateFactors i m) * 100) \<and>
   scoring_breakdown (marketDecisionTool f g m i) = calculateFactors i m"
  by (cases "applyMarketFilters m")
     (simp add: marketDecisionTool_def calculateMultiFactorScore_def Let_def split: prod.splits)

text \<open>
  Claim C1. The claim: for every accepted input the confidence is
  \<open>round (100 * \<Sum> weight * factor)\<close> and lies in \<open>[0, 100]\<close>. The tool computes the
  rounded weighted sum (\<open>tool_passed\<close>, \<open>weights_sum\<close>, \<open>scenario_B\<close>) but clamps
  nothing: on an input that the schema accepts and that passes every filter the
  returned confidence is 127, outside the range that the tool's own output schema
  declares.
\<close>

theorem confidence_exceeds_100:
  "market_schema edge_market \<and> intelligence_schema edge_intelligence \<and>
   market_filters_passed (marketDecisionTool f g edge_market edge_intelligence) \<and>
   confidence (decision (marketDecisionTool f g edge_market edge_intelligence)) = 127"
  by (simp add: edge_schema marketDecisionTool_def edge_filters calculateMultiFactorScore_def
      edge_factors weightedScore_def SCORING_WEIGHTS_def round_def Let_def split: prod.splits)

text \<open>
  Claim C2. The claim: each of the five factors lies in \<open>[0, 1]\<close> for every accepted
  input. Four of them do (\<open>technical_range\<close>, \<open>liquidity_range\<close>, \<open>timing_range\<close>,
  \<open>catalyst_range\<close>); the sentiment edge is not clamped and reaches \<open>5/3\<close> on an
  accepted input, its largest value (\<open>sentiment_edge_range\<close>).
\<close>

theorem sentiment_edge_exceeds_1:
  "market_schema edge_market \<and> intelligence_schema edge_intelligence \<and>
   calculateSentimentEdge edge_intelligence edge_market = 5 / 3 \<and>
   sentiment_edge (scoring_breakdown (marketDecisionTool f g edge_market edge_intelligence)) = 5 / 3"
proof -
  have "fst (applyMarketFilters edge_market)" by (simp add: edge_filters)
  then have "scoring_breakdown (marketDecisionTool f g edge_market edge_intelligence)
      = calculateFactors edge_intelligence edge_market"
    by (simp add: tool_passed)
  moreover have "calculateSentimentEdge edge_intelligence edge_market = 5 / 3"
    using edge_factors by (simp add: calculateFactors_def)
  ultimately show ?thesis by (simp add: edge_schema edge_factors)
qed

lemma sublist_join: "x \<in> set xs \<Longrightarrow> sublist x (join sep xs)"
proof (induction sep xs rule: join.induct)
  case (1 sep) then show ?case by simp
next
  case (2 sep y) then show ?case by simp
next
  case (3 sep a b bs)
  show ?case
  proof (cases "x = a")
    case True then show ?thesis by simp
  next
    case False
    with 3 have "sublist x (join sep (b # bs))" by simp
    then obtain ps ss where "join sep (b # bs) = ps @ x @ ss"
      by (auto simp: sublist_def)
    then have "join sep (a # b # bs) = (a @ sep @ ps) @ x @ ss" by simp
    then show ?thesis unfolding sublist_def by blast
  qed
qed

lemma filters_reasons:
  "snd (applyMarketFilters m) =
     (if liquidity m < 1000 then [''Insufficient liquidity''] else []) @
     (if timeToClose m > 259200000 then [''Too much time until close''] else []) @
     (if \<not> orderBookEnabled m then [''Order book not enabled''] else []) @
     (if volume24h m < 500 then [''Insufficient daily volume''] else []) @
     (if spread m > 0.05 then [''Spread too wide''] else [])"
  by (simp add: applyMarketFilters_def check_def)

lemma filters_passed:
  "fst (applyMarketFilters m) \<longleftrightarrow>
     \<not> (liquidity m < 1000 \<or> timeToClose m > 259200000 \<or> \<not> orderBookEnabled m \<or>
        volume24h m < 500 \<or> spread m > 0.05)"
  by (simp add: applyMarketFilters_def check_def)

lemma tool_failed:
  "\<not> fst (applyMarketFilters m) \<Longrightarrow>
   decision (marketDecisionTool f g m i) =
     \<lparr> action = NONE, outcome = None, confidence = 0, position_size = 0,
       reasoning = ''Market filters failed: '' @ join '', '' (snd (applyMarketFilters m)),
       strategy = none, execution_urgency = PATIENT \<rparr>"
  by (cases "applyMarketFilters m") (simp add: marketDecisionTool_def)

lemma tool_failed_risk:
  "\<not> fst (applyMarketFilters m) \<Longrightarrow>
   risk_factors (risk_assessment (marketDecisionTool f g m i)) = snd (applyMarketFilters m)"
  by (cases "applyMarketFilters m") (simp add: marketDecisionTool_def)

text \<open>
  Claim C7. All five primary filters are evaluated; if any of them fails, the decision
  is NONE with confidence 0 and its rationale names every filter that failed. In
  particular a liquidity of 500 gives NONE with a rationale containing "liquidity". The
  rationale is exactly the heading followed by the names of the filters that failed, in
  the order of the checks and separated by commas, and the risk factors are exactly this
  list: a filter that passed is not named, whatever the other filters do.
\<close>

theorem filters_all_evaluated:
  fixes m :: MarketContext and i :: IntelligenceData and f :: "real \<Rightarrow> string" and g :: "nat \<Rightarrow> string"
  defines "d \<equiv> decision (marketDecisionTool f g m i)"
  shows "(liquidity m < 1000 \<or> timeToClose m > 72 * 60 * 60 * 1000 \<or> \<not> orderBookEnabled m \<or>
          volume24h m < 500 \<or> spread m > 0.05 \<longrightarrow>
            action d = NONE \<and> confidence d = 0 \<and>
            (liquidity m < 1000 \<longrightarrow> sublist ''Insufficient liquidity'' (reasoning d)) \<and>
            (timeToClose m > 72 * 60 * 60 * 1000 \<longrightarrow>
               sublist ''Too much time until close'' (reasoning d)) \<and>
            (\<not> orderBookEnabled m \<longrightarrow> sublist ''Order book not enabled'' (reasoning d)) \<and>
            (volume24h m < 500 \<longrightarrow> sublist ''Insufficient daily volume'' (reasoning d)) \<and>
            (spread m > 0.05 \<longrightarrow> sublist ''Spread too wide'' (reasoning d))) \<and>
         (liquidity m = 500 \<longrightarrow> action d = NONE \<and> sublist ''liquidity'' (reasoning d)) \<and>
         (liquidity m < 1000 \<or> timeToClose m > 72 * 60 * 60 * 1000 \<or> \<not> orderBookEnabled m \<or>
          volume24h m < 500 \<or> spread m > 0.05 \<longrightarrow>
            reasoning d = ''Market filters failed: '' @ join '', ''
              ((if liquidity m < 1000 then [''Insufficient liquidity''] else []) @
               (if timeToClose m > 72 * 60 * 60 * 1000 then [''Too much time until close'']
                else []) @
               (if \<not> orderBookEnabled m then [''Order book not enabled''] else []) @
               (if volume24h m < 500 then [''Insufficient daily volume''] else []) @
               (if spread m > 0.05 then [''Spread too wide''] else [])) \<and>
            risk_factors (risk_assessment (marketDecisionTool f g m i)) =
              (if liquidity m < 1000 then [''Insufficient liquidity''] else []) @
              (if timeToClose m > 72 * 60 * 60 * 1000 then [''Too much time until close'']
               else []) @
              (if \<not> orderBookEnabled m then [''Order book not enabled''] else []) @
              (if volume24h m < 500 then [''Insufficient daily volume''] else []) @
              (if spread m > 0.05 then [''Spread too wide''] else []))"
proof -
  have named: "sublist r (reasoning d)"
    if "\<not> fst (applyMarketFilters m)" and "r \<in> set (snd (applyMarketFilters m))" for r
  proof -
    have "sublist r (join '', '' (snd (applyMarketFilters m)))"
      using that(2) by (rule sublist_join)
    then obtain ps ss where "join '', '' (snd (applyMarketFilters m)) = ps @ r @ ss"
      by (auto simp: sublist_def)
    then have "reasoning d = (''Market filters failed: '' @ ps) @ r @ ss"
      using that(1) by (simp add: d_def tool_failed)
    then show ?thesis unfolding sublist_def by blast
  qed
  have none: "action d = NONE \<and> confidence d = 0" if "\<not> fst (applyMarketFilters m)"
    using that by (simp add: d_def tool_failed)
  have first: "liquidity m < 1000 \<or> timeToClose m > 72 * 60 * 60 * 1000 \<or> \<not> orderBookEnabled m \<or>
          volume24h m < 500 \<or> spread m > 0.05 \<longrightarrow>
            action d = NONE \<and> confidence d = 0 \<and>
            (liquidity m < 1000 \<longrightarrow> sublist ''Insufficient liquidity'' (reasoning d)) \<and>
            (timeToClose m > 72 * 60 * 60 * 1000 \<longrightarrow>
               sublist ''Too much time until close'' (reasoning d)) \<and>
            (\<not> orderBookEnabled m \<longrightarrow> sublist ''Order book not enabled'' (reasoning d)) \<and>
            (volume24h m < 500 \<longrightarrow> sublist ''Insufficient daily volume'' (reasoning d)) \<and>
            (spread m > 0.05 \<longrightarrow> sublist ''Spread too wide'' (reasoning d))"
  proof
    assume "liquidity m < 1000 \<or> timeToClose m > 72 * 60 * 60 * 1000 \<or> \<not> orderBookEnabled m \<or>
          volume24h m < 500 \<or> spread m > 0.05"
    then have nf: "\<not> fst (applyMarketFilters m)" by (simp add: filters_passed)
    show "action d = NONE \<and> confidence d = 0 \<and>
            (liquidity m < 1000 \<longrightarrow> sublist ''Insufficient liquidity'' (reasoning d)) \<and>
            (timeToClose m > 72 * 60 * 60 * 1000 \<longrightarrow>
               sublist ''Too much time until close'' (reasoning d)) \<and>
            (\<not> orderBookEnabled m \<longrightarrow> sublist ''Order book not enabled'' (reasoning d)) \<and>
            (volume24h m < 500 \<longrightarrow> sublist ''Insufficient daily volume'' (reasoning d)) \<and>
            (spread m > 0.05 \<longrightarrow> sublist ''Spread too wide'' (reasoning d))"
      using none[OF nf] named[OF nf] by (simp add: filters_reasons)
  qed
  have second: "liquidity m = 500 \<longrightarrow> action d = NONE \<and> sublist ''liquidity'' (reasoning d)"
  proof
    assume l: "liquidity m = 500"
    then have nf: "\<not> fst (applyMarketFilters m)" by (simp add: filters_passed)
    have "sublist ''Insufficient liquidity'' (reasoning d)"
      using named[OF nf] l by (simp add: filters_reasons)
    moreover have "sublist ''liquidity'' ''Insufficient liquidity''" by code_simp
    ultimately have "sublist ''liquidity'' (reasoning d)"
      by (rule sublist_order.order_trans[rotated])
    then show "action d = NONE \<and> sublist ''liquidity'' (reasoning d)"
      using none[OF nf] by simp
  qed
  have third: "liquidity m < 1000 \<or> timeToClose m > 72 * 60 * 60 * 1000 \<or>
          \<not> orderBookEnabled m \<or> volume24h m < 500 \<or> spread m > 0.05 \<longrightarrow>
            reasoning d = ''Market filters failed: '' @ join '', ''
              ((if liquidity m < 1000 then [''Insufficient liquidity''] else []) @
               (if timeToClose m > 72 * 60 * 60 * 1000 then [''Too much time until close'']
                else []) @
               (if \<not> orderBookEnabled m then [''Order book not enabled''] else []) @
               (if volume24h m < 500 then [''Insufficient daily volume''] else []) @
               (if spread m > 0.05 then [''Spread too wide''] else [])) \<and>
            risk_factors (risk_assessment (marketDecisionTool f g m i)) =
              (if liquidity m < 1000 then [''Insufficient liquidity''] else []) @
              (if timeToClose m > 72 * 60 * 60 * 1000 then [''Too much time until close'']
               else []) @
              (if \<not> orderBookEnabled m then [''Order book not enabled''] else []) @
              (if volume24h m < 500 then [''Insufficient daily volume''] else []) @
              (if spread m > 0.05 then [''Spread too wide''] else [])"
  proof
    assume "liquidity m < 1000 \<or> timeToClose m > 72 * 60 * 60 * 1000 \<or> \<not> orderBookEnabled m \<or>
          volume24h m < 500 \<or> spread m > 0.05"
    then have nf: "\<not> fst (applyMarketFilters m)" by (simp add: filters_passed)
    have r: "reasoning d =
        ''Market filters failed: '' @ join '', '' (snd (applyMarketFilters m))"
      using nf by (simp add: d_def tool_failed)
    have k: "risk_factors (risk_assessment (marketDecisionTool f g m i)) =
        snd (applyMarketFilters m)"
      using nf by (rule tool_failed_risk)
    show "reasoning d = ''Market filters failed: '' @ join '', ''
              ((if liquidity m < 1000 then [''Insufficient liquidity''] else []) @
               (if timeToClose m > 72 * 60 * 60 * 1000 then [''Too much time until close'']
                else []) @
               (if \<not> orderBookEnabled m then [''Order book not enabled''] else []) @
               (if volume24h m < 500 then [''Insufficient daily volume''] else []) @
               (if spread m > 0.05 then [''Spread too wide''] else [])) \<and>
            risk_factors (risk_assessment (marketDecisionTool f g m i)) =
              (if liquidity m < 1000 then [''Insufficient liquidity''] else []) @
              (if timeToClose m > 72 * 60 * 60 * 1000 then [''Too much time until close'']
               else []) @
              (if \<not> orderBookEnabled m then [''Order book not enabled''] else []) @
              (if volume24h m < 500 then [''Insufficient daily volume''] else []) @
              (if spread m > 0.05 then [''Spread too wide''] else [])"
      unfolding r k filters_reasons by simp
  qed
  show ?thesis
    apply (intro conjI)
      apply (rule first)
     apply (rule second)
    apply (rule third)
    done
qed

theorem filters_all_evaluated_witness:
  "liquidity thin_market = 500 \<and> spread thin_market > 0.05 \<and>
   action (decision (marketDecisionTool (\<lambda>x. []) (\<lambda>n. []) thin_market edge_intelligence)) = NONE \<and>
   confidence (decision (marketDecisionTool (\<lambda>x. []) (\<lambda>n. []) thin_market edge_intelligence)) = 0 \<and>
   sublist ''Insufficient liquidity''
     (reasoning (decision (marketDecisionTool (\<lambda>x. []) (\<lambda>n. []) thin_market edge_intelligence))) \<and>
   sublist ''Spread too wide''
     (reasoning (decision (marketDecisionTool (\<lambda>x. []) (\<lambda>n. []) thin_market edge_intelligence))) \<and>
   sublist ''liquidity''
     (reasoning (decision (marketDecisionTool (\<lambda>x. []) (\<lambda>n. []) thin_market edge_intelligence))) \<and>
   reasoning (decision (marketDecisionTool (\<lambda>x. []) (\<lambda>n. []) thin_market edge_intelligence)) =
     ''Market filters failed: Insufficient liquidity, Spread too wide'' \<and>
   risk_factors (risk_assessment
       (marketDecisionTool (\<lambda>x. []) (\<lambda>n. []) thin_market edge_intelligence)) =
     [''Insufficient liquidity'', ''Spread too wide'']"
proof -
  have t: "liquidity thin_market = 500" "spread thin_market = 0.1"
    "timeToClose thin_market = 64800000" "orderBookEnabled thin_market"
    "volume24h thin_market = 2000"
    by (simp_all add: thin_market_def)
  have l: "sublist ''Insufficient liquidity''
        ''Market filters failed: Insufficient liquidity, Spread too wide''"
    "sublist ''Spread too wide''
        ''Market filters failed: Insufficient liquidity, Spread too wide''"
    "sublist ''liquidity''
        ''Market filters failed: Insufficient liquidity, Spread too wide''"
    by code_simp+
  show ?thesis
    using filters_all_evaluated [where m = thin_market and i = edge_intelligence
        and f = "\<lambda>x. []" and g = "\<lambda>n. []"] l
    by (simp add: t)
qed

lemma decideAction_cases:
  "fst (decideAction s c i) \<noteq> SELL \<and>
   (fst (decideAction s c i) = BUY \<longrightarrow>
      decideAction s c i = (BUY, Some ''Yes'') \<and> aggregatedSentiment i > 0.1 \<or>
      decideAction s c i = (BUY, Some ''No'') \<and> aggregatedSentiment i < - 0.1)"
  by (simp add: decideAction_def)

lemma tool_passed_decision:
  assumes "fst (applyMarketFilters m)"
  shows "action (decision (marketDecisionTool f g m i)) =
           fst (decideAction (strategy (decision (marketDecisionTool f g m i)))
                  (confidence (decision (marketDecisionTool f g m i))) i)"
    and "outcome (decision (marketDecisionTool f g m i)) =
           snd (decideAction (strategy (decision (marketDecisionTool f g m i)))
                  (confidence (decision (marketDecisionTool f g m i))) i)"
    and "action (decision (marketDecisionTool f g m i)) = NONE \<longrightarrow>
           position_size (decision (marketDecisionTool f g m i)) = 0"
  using assms
  by (cases "applyMarketFilters m";
      simp add: marketDecisionTool_def Let_def split: prod.splits)+

text \<open>
  Claim C10. The rule-based tool never returns SELL: the action is BUY, HOLD or NONE;
  NONE comes with position size 0; BUY comes with outcome Yes for a positive and No for
  a negative aggregated sentiment, and both directions of an eligible signal give BUY.
\<close>

theorem never_sells:
  fixes m :: MarketContext and i :: IntelligenceData and f :: "real \<Rightarrow> string"
    and g :: "nat \<Rightarrow> string"
  defines "d \<equiv> decision (marketDecisionTool f g m i)"
  shows "action d \<noteq> SELL \<and> (action d = BUY \<or> action d = HOLD \<or> action d = NONE) \<and>
         (action d = NONE \<longrightarrow> position_size d = 0) \<and>
         (action d = BUY \<longrightarrow>
            outcome d = Some ''Yes'' \<and> aggregatedSentiment i > 0.1 \<or>
            outcome d = Some ''No'' \<and> aggregatedSentiment i < - 0.1) \<and>
         (market_filters_passed (marketDecisionTool f g m i) \<and> strategy d \<noteq> none \<and>
          confidence d \<ge> 70 \<longrightarrow>
            (aggregatedSentiment i > 0.1 \<longrightarrow> action d = BUY \<and> outcome d = Some ''Yes'') \<and>
            (aggregatedSentiment i < - 0.1 \<longrightarrow> action d = BUY \<and> outcome d = Some ''No''))"
proof (cases "fst (applyMarketFilters m)")
  case False
  then have "d = \<lparr> action = NONE, outcome = None, confidence = 0, position_size = 0,
       reasoning = ''Market filters failed: '' @ join '', '' (snd (applyMarketFilters m)),
       strategy = none, execution_urgency = PATIENT \<rparr>"
    by (simp add: d_def tool_failed)
  then show ?thesis by simp
next
  case True
  have a: "action d = fst (decideAction (strategy d) (confidence d) i)"
    and b: "outcome d = snd (decideAction (strategy d) (confidence d) i)"
    and c: "action d = NONE \<longrightarrow> position_size d = 0"
    using tool_passed_decision[OF True] by (simp_all add: d_def)
  have sell: "action d \<noteq> SELL" using a decideAction_cases by simp
  have dom: "action d = BUY \<or> action d = HOLD \<or> action d = NONE"
    using sell by (cases "action d") simp_all
  have buy: "action d = BUY \<longrightarrow>
            outcome d = Some ''Yes'' \<and> aggregatedSentiment i > 0.1 \<or>
            outcome d = Some ''No'' \<and> aggregatedSentiment i < - 0.1"
    using a b decideAction_cases[of "strategy d" "confidence d" i] by auto
  have dir: "strategy d \<noteq> none \<and> confidence d \<ge> 70 \<longrightarrow>
            (aggregatedSentiment i > 0.1 \<longrightarrow> action d = BUY \<and> outcome d = Some ''Yes'') \<and>
            (aggregatedSentiment i < - 0.1 \<longrightarrow> action d = BUY \<and> outcome d = Some ''No'')"
    using a b by (simp add: decideAction_def)
  show ?thesis using sell dom c buy dir by blast
qed

lemma bull_filters: "applyMarketFilters bull_market = (True, [])"
  by (simp add: applyMarketFilters_def check_def edge_market_def bull_market_def)

lemma bull_factors: "calculateFactors bull_intelligence bull_market =
   \<lparr> sentiment_edge = 5 / 3, technical_momentum = 1, liquidity_quality = 1,
     timing_urgency = 1, news_catalyst = 1 \<rparr>"
  by (simp add: calculateFactors_def calculateSentimentEdge_def aggregatedSentiment_def 
     calculateTechnicalMomentum_def calculateLiquidityQuality_def calculateTimingUrgency_def
     calculateNewsCatalyst_def edge_market_def bull_market_def bull_intelligence_def)

lemma tool_passed_strategy:
  "fst (applyMarketFilters m) \<Longrightarrow>
   strategy (decision (marketDecisionTool f g m i)) =
     determineStrategy i m
       \<lparr> totalScore = weightedScore (calculateFactors i m), breakdown = calculateFactors i m \<rparr>"
  by (cases "applyMarketFilters m")
     (simp add: marketDecisionTool_def calculateMultiFactorScore_def Let_def split: prod.splits)

lemma edge_breaking: "breaking_news (newsIntelligence edge_intelligence)"
  by (simp add: edge_intelligence_def)

lemma edge_sentiment: "aggregatedSentiment edge_intelligence = - 1"
  by (simp add: aggregatedSentiment_def edge_intelligence_def)

lemma edge_decision:
  "strategy (decision (marketDecisionTool f g edge_market edge_intelligence)) = breaking_news_hunter \<and>
   confidence (decision (marketDecisionTool f g edge_market edge_intelligence)) = 127 \<and>
   action (decision (marketDecisionTool f g edge_market edge_intelligence)) = BUY"
proof -
  have p: "fst (applyMarketFilters edge_market)" by (simp add: edge_filters)
  have s: "strategy (decision (marketDecisionTool f g edge_market edge_intelligence)) =
      breaking_news_hunter"
    by (simp add: tool_passed_strategy[OF p] determineStrategy_def edge_factors edge_breaking)
  have c: "confidence (decision (marketDecisionTool f g edge_market edge_intelligence)) = 127"
    using tool_passed[OF p, of f g edge_intelligence]
    by (simp add: edge_factors weightedScore_def SCORING_WEIGHTS_def round_def)
  have "action (decision (marketDecisionTool f g edge_market edge_intelligence)) = BUY"
    using tool_passed_decision(1)[OF p, of f g edge_intelligence]
    by (simp add: s c decideAction_def edge_sentiment)
  with s c show ?thesis by simp
qed

lemma bull_breaking: "breaking_news (newsIntelligence bull_intelligence)"
  by (simp add: bull_intelligence_def)

lemma bull_sentiment: "aggregatedSentiment bull_intelligence = 1"
  by (simp add: aggregatedSentiment_def bull_intelligence_def)

lemma bull_decision:
  "market_filters_passed (marketDecisionTool f g bull_market bull_intelligence) \<and>
   strategy (decision (marketDecisionTool f g bull_market bull_intelligence)) = breaking_news_hunter \<and>
   confidence (decision (marketDecisionTool f g bull_market bull_intelligence)) = 127"
proof -
  have p: "fst (applyMarketFilters bull_market)" by (simp add: bull_filters)
  have m: "market_filters_passed (marketDecisionTool f g bull_market bull_intelligence)"
    by (simp add: marketDecisionTool_def bull_filters Let_def split: prod.splits)
  have s: "strategy (decision (marketDecisionTool f g bull_market bull_intelligence)) =
      breaking_news_hunter"
    by (simp add: tool_passed_strategy[OF p] determineStrategy_def bull_factors bull_breaking)
  have c: "confidence (decision (marketDecisionTool f g bull_market bull_intelligence)) = 127"
    using tool_passed[OF p, of f g bull_intelligence]
    by (simp add: bull_factors weightedScore_def SCORING_WEIGHTS_def round_def)
  from m s c show ?thesis by simp
qed

lemma thin_decision:
  "action (decision (marketDecisionTool f g thin_market i)) = NONE"
  by (simp add: tool_failed filters_passed thin_market_def)

theorem never_sells_witness:
  "outcome (decision (marketDecisionTool (\<lambda>x. []) (\<lambda>n. []) edge_market edge_intelligence)) = Some ''No'' \<and>
   aggregatedSentiment edge_intelligence < - 0.1 \<and>
   action (decision (marketDecisionTool (\<lambda>x. []) (\<lambda>n. []) bull_market bull_intelligence)) = BUY \<and>
   outcome (decision (marketDecisionTool (\<lambda>x. []) (\<lambda>n. []) bull_market bull_intelligence)) = Some ''Yes'' \<and>
   action (decision (marketDecisionTool (\<lambda>x. []) (\<lambda>n. []) thin_market edge_intelligence)) = NONE \<and>
   position_size (decision (marketDecisionTool (\<lambda>x. []) (\<lambda>n. []) thin_market edge_intelligence)) = 0"
proof -
  note e = edge_sentiment and b = bull_sentiment
  show ?thesis
    using never_sells [where m = edge_market and i = edge_intelligence
        and f = "\<lambda>x. []" and g = "\<lambda>n. []"]
      never_sells [where m = bull_market and i = bull_intelligence
        and f = "\<lambda>x. []" and g = "\<lambda>n. []"]
      never_sells [where m = thin_market and i = edge_intelligence
        and f = "\<lambda>x. []" and g = "\<lambda>n. []"]
    by (simp add: e b edge_decision bull_decision thin_decision)
qed

section \<open>Properties of the execution agent\<close>

text \<open>
  Claim C5. The validation checks the emergency stop, then resets the day's counter on a
  new date, then applies the per-trade cap, the daily cap and the concurrent-trade cap in
  this order, and the first failing check alone gives the reason: the source function
  equals the ordered reading \<open>spec_validate\<close>; a rejection by the emergency stop leaves
  the ledger as it was, one by the per-trade cap comes after the rollover and does not
  depend on the ledger. With 250 spent, the same day and a request of 60, the rejection
  cites 250, 60 and 300.
\<close>

theorem validate_order:
  "validateTradeAmount pf str t a c = spec_validate pf str t a c \<and>
   (emergencyStopActive c \<longrightarrow>
      validateTradeAmount pf str t a c =
        (\<lparr> valid = False, reason = Some ''Emergency stop is active'' \<rparr>, c)) \<and>
   (\<not> emergencyStopActive c \<and> pf a > 100 \<longrightarrow>
      validateTradeAmount pf str t a c =
        (\<lparr> valid = False, reason = Some (''Trade amount $'' @ a @
            '' exceeds max single trade limit $'' @ str 100) \<rparr>, day_rollover t c)) \<and>
   (\<not> emergencyStopActive c \<and> t = lastResetDate c \<and> dailySpentAmount c = 250 \<and> pf a = 60 \<longrightarrow>
      validateTradeAmount pf str t a c =
        (\<lparr> valid = False, reason = Some
            (''Trade would exceed daily spending limit. Daily spent: $'' @ str 250 @
             '', Trade: $'' @ str 60 @ '', Limit: $'' @ str 300) \<rparr>, c))"
  by (simp add: validateTradeAmount_def spec_validate_def day_rollover_def SECURITY_LIMITS_def Let_def)

theorem validate_order_witness:
  "validateTradeAmount sample_parseFloat sample_str ''Tue Nov 03 2026'' ''60'' ledger_250 =
     (\<lparr> valid = False, reason = Some
         ''Trade would exceed daily spending limit. Daily spent: $250, Trade: $60, Limit: $300'' \<rparr>,
      ledger_250) \<and>
   validateTradeAmount sample_parseFloat sample_str ''Wed Nov 04 2026'' ''250'' ledger_250 =
     (\<lparr> valid = False, reason = Some
         ''Trade amount $250 exceeds max single trade limit $100'' \<rparr>,
      ledger_250\<lparr> dailySpentAmount := 0, lastResetDate := ''Wed Nov 04 2026'' \<rparr>) \<and>
   validateTradeAmount sample_parseFloat sample_str ''Wed Nov 04 2026'' ''250''
       (ledger_250\<lparr> emergencyStopActive := True \<rparr>) =
     (\<lparr> valid = False, reason = Some ''Emergency stop is active'' \<rparr>,
      ledger_250\<lparr> emergencyStopActive := True \<rparr>)"
  using validate_order [of sample_parseFloat sample_str "''Tue Nov 03 2026''" "''60''" ledger_250]
    validate_order [of sample_parseFloat sample_str "''Wed Nov 04 2026''" "''250''" ledger_250]
    validate_order [of sample_parseFloat sample_str "''Wed Nov 04 2026''" "''250''"
      "ledger_250\<lparr> emergencyStopActive := True \<rparr>"]
  by (simp add: sample_parseFloat_def sample_str_def ledger_250_def day_rollover_def
      spec_validate_def Let_def)

lemma attempt_eq: "attempt env n s = (attempt_result env n, emit (attempt_calls env n) s)"
  by (simp add: attempt_def attempt_result_def attempt_calls_def emit_def
      split: call_result.splits)

lemma attempt_calls_approve:
  "count_list (attempt_calls env n) (CallTool ''approve_token_spending'') = 1"
  by (simp add: attempt_calls_def split: call_result.splits)

lemma emit_emit: "emit ys (emit xs s) = emit (xs @ ys) s"
  by (simp add: emit_def)

lemma retry_fail_step:
  assumes "rc \<le> maxRetries" "\<not> success res" "attempt_result env rc = Inl e"
  shows "retryLoop pf env ti rc res s =
     (if Suc rc \<le> maxRetries
      then retryLoop pf env ti (Suc rc) res (emit (attempt_calls env rc @ [Sleep retryDelayMs]) s)
      else retryLoop pf env ti (Suc rc)
             (noResult\<lparr> error := Some e, retryCount := Some (Suc rc) \<rparr>)
             (emit (attempt_calls env rc) s))"
  by (subst retryLoop.simps) (simp add: attempt_eq assms emit_emit)

lemma retry_exit: "maxRetries < rc \<Longrightarrow> retryLoop pf env ti rc res s = (rc, res, s)"
  by (subst retryLoop.simps) simp

lemma retry_all_fail:
  assumes "\<forall>n\<le>maxRetries. isl (attempt_result env n)"
  shows "retryLoop pf env ti 0 noResult s =
     (4, noResult\<lparr> error := Some (projl (attempt_result env 3)), retryCount := Some 4 \<rparr>,
      emit (attempt_calls env 0 @ [Sleep 5000] @ attempt_calls env 1 @ [Sleep 5000] @
            attempt_calls env 2 @ [Sleep 5000] @ attempt_calls env 3) s)"
proof -
  let ?d = "Sleep retryDelayMs"
  let ?one = "Suc 0" and ?two = "Suc (Suc 0)" and ?three = "Suc (Suc (Suc 0))"
  have m: "maxRetries = ?three" by (simp add: maxRetries_def numeral_3_eq_3)
  have f: "attempt_result env n = Inl (projl (attempt_result env n))" if "n \<le> ?three" for n
    using assms that by (simp add: m)
  have n: "\<not> success noResult" by (simp add: noResult_def)
  have "retryLoop pf env ti 0 noResult s =
      retryLoop pf env ti ?one noResult (emit (attempt_calls env 0 @ [?d]) s)"
    using retry_fail_step[OF _ n f[of 0], of pf ti s] by (simp add: m)
  also have "\<dots> = retryLoop pf env ti ?two noResult
      (emit (attempt_calls env 0 @ [?d] @ attempt_calls env ?one @ [?d]) s)"
    using retry_fail_step[OF _ n f[of ?one], of pf ti] by (simp add: m emit_emit)
  also have "\<dots> = retryLoop pf env ti ?three noResult
      (emit (attempt_calls env 0 @ [?d] @ attempt_calls env ?one @ [?d] @
             attempt_calls env ?two @ [?d]) s)"
    using retry_fail_step[OF _ n f[of ?two], of pf ti] by (simp add: m emit_emit)
  also have "\<dots> = retryLoop pf env ti (Suc ?three)
      (noResult\<lparr> error := Some (projl (attempt_result env ?three)),
                 retryCount := Some (Suc ?three) \<rparr>)
      (emit (attempt_calls env 0 @ [?d] @ attempt_calls env ?one @ [?d] @
             attempt_calls env ?two @ [?d] @ attempt_calls env ?three) s)"
    using retry_fail_step[OF _ n f[of ?three], of pf ti] by (simp add: m emit_emit)
  also have "\<dots> = (Suc ?three,
      noResult\<lparr> error := Some (projl (attempt_result env ?three)),
                retryCount := Some (Suc ?three) \<rparr>,
      emit (attempt_calls env 0 @ [?d] @ attempt_calls env ?one @ [?d] @
            attempt_calls env ?two @ [?d] @ attempt_calls env ?three) s)"
    by (rule retry_exit) (simp add: m)
  finally show ?thesis
    by (simp add: retryDelayMs_def numeral_2_eq_2 numeral_3_eq_3 numeral_Bit0 [of "Num.Bit0 Num.One"])
qed

lemma noResult_failed: "\<not> success (noResult\<lparr> error := e, retryCount := r \<rparr>)"
  by (simp add: noResult_def)

text \<open>
  Claim C6. With \<open>maxRetries = 3\<close>, when every attempt fails (the approval or the
  submission), the run makes exactly four attempts with a delay of 5000 ms between them,
  then writes the status FAILED to the trade record, releases the slot, and returns the
  error message of the last attempt.
\<close>

theorem retries_exhausted:
  assumes validated: "valid (fst (validateTradeAmount pf str (today env) (amount ti) (security s0)))"
    and wallet: "walletAddress env = Some a" "a \<noteq> []"
    and balance: "getBalance env = CallOk b" "\<not> pf (orElse b ''0'') < pf (amount ti)"
    and created: "repoCreate env = Inr savedId"
    and failing: "\<forall>n\<le>maxRetries. isl (attempt_result env n)"
    and written: "repoUpdate env = None"
  shows "maxRetries = 3 \<and>
    (case tradeExecutionTool pf str env ti s0 of (out, s1) \<Rightarrow>
       new_events s0 s1 =
         [CallTool ''get_balance'', RecordTradeStart, RepoCreate] @
         attempt_calls env 0 @ [Sleep 5000] @ attempt_calls env 1 @ [Sleep 5000] @
         attempt_calls env 2 @ [Sleep 5000] @ attempt_calls env 3 @
         [RepoUpdateStatus savedId FAILED, RecordTradeEnd] \<and>
       count_list (new_events s0 s1) (CallTool ''approve_token_spending'') = 4 \<and>
       db s1 savedId = Some FAILED \<and>
       \<not> success (execution_result out) \<and>
       error (execution_result out) = Some (projl (attempt_result env 3)) \<and>
       retryCount (execution_result out) = Some 4)"
proof -
  obtain v c1 where v: "validateTradeAmount pf str (today env) (amount ti) (security s0) = (v, c1)"
    by (cases "validateTradeAmount pf str (today env) (amount ti) (security s0)")
  with validated have ok: "valid v" by simp
  let ?calls = "attempt_calls env 0 @ [Sleep 5000] @ attempt_calls env 1 @ [Sleep 5000] @
         attempt_calls env 2 @ [Sleep 5000] @ attempt_calls env 3"
  let ?res = "noResult\<lparr> error := Some (projl (attempt_result env 3)), retryCount := Some 4 \<rparr>"
  let ?c2 = "recordTradeStart pf (amount ti) c1"
  let ?s = "\<lparr> security = recordTradeEnd ?c2, db = (db s0)(savedId \<mapsto> FAILED),
              trace = trace s0 @ [CallTool ''get_balance'', RecordTradeStart, RepoCreate] @ ?calls @
                [RepoUpdateStatus savedId FAILED, RecordTradeEnd] \<rparr>"
  have run: "tradeExecutionTool pf str env ti s0 =
      (\<lparr> execution_result = ?res,
         security_checks = \<lparr> limits_passed = True,
           daily_spent = dailySpentAmount (recordTradeEnd ?c2),
           concurrent_trades = concurrentTradesCount (recordTradeEnd ?c2),
           security_warnings = [] \<rparr>,
         database_recorded = True, monitoring_active = False \<rparr>, ?s)"
  proof -
    have w: "orElse (walletAddress env) [] \<noteq> []"
      using wallet by (simp add: orElse_def)
    have settle: "executeAndSettle pf env ti savedId s =
        finishTrade 4 ?res False
          (emit [RepoUpdateStatus savedId FAILED]
             ((emit ?calls s)\<lparr> db := (db (emit ?calls s))(savedId \<mapsto> FAILED) \<rparr>))" for s
      by (simp add: executeAndSettle_def retry_all_fail[OF failing] written noResult_failed)
    have body: "tradeBody pf str env ti s =
        executeAndSettle pf env ti savedId
          ((emit [CallTool ''get_balance'', RecordTradeStart, RepoCreate]
             (s\<lparr> security := recordTradeStart pf (amount ti) (security s) \<rparr>))
           \<lparr> db := (db s)(savedId \<mapsto> PENDING) \<rparr>)" for s
      by (simp add: tradeBody_def w balance created Let_def emit_def)
    show ?thesis
      by (simp add: tradeExecutionTool_def v ok body settle finishTrade_def emit_def
          noResult_def Let_def)
  qed
  have cnt: "count_list ([CallTool ''get_balance'', RecordTradeStart, RepoCreate] @ ?calls @
                [RepoUpdateStatus savedId FAILED, RecordTradeEnd])
              (CallTool ''approve_token_spending'') = 4"
    by (simp add: attempt_calls_approve)
  show ?thesis
    unfolding run using cnt by (simp add: new_events_def maxRetries_def noResult_def)
qed

lemma failing_env_attempts:
  "attempt_calls failing_env n = [CallTool ''approve_token_spending'', CallTool ''write_contract'']"
  "attempt_result failing_env n = Inl (if n = 3 then ''nonce too low'' else ''reverted'')"
  by (simp_all add: attempt_calls_def attempt_result_def failing_env_def orElse_def)

lemma trade_50_validated:
  "validateTradeAmount sample_parseFloat sample_str ''Tue Nov 03 2026'' ''50'' ledger_busy =
     (\<lparr> valid = True, reason = None \<rparr>, ledger_busy)"
  by (simp add: validateTradeAmount_def sample_parseFloat_def ledger_busy_def SECURITY_LIMITS_def)

theorem retries_exhausted_witness:
  "case tradeExecutionTool sample_parseFloat sample_str failing_env trade_50
          (start_state ledger_busy) of
     (out, s1) \<Rightarrow>
       trace s1 =
         [CallTool ''get_balance'', RecordTradeStart, RepoCreate,
          CallTool ''approve_token_spending'', CallTool ''write_contract'', Sleep 5000,
          CallTool ''approve_token_spending'', CallTool ''write_contract'', Sleep 5000,
          CallTool ''approve_token_spending'', CallTool ''write_contract'', Sleep 5000,
          CallTool ''approve_token_spending'', CallTool ''write_contract'',
          RepoUpdateStatus ''t1'' FAILED, RecordTradeEnd] \<and>
       db s1 ''t1'' = Some FAILED \<and>
       \<not> success (execution_result out) \<and>
       error (execution_result out) = Some ''nonce too low'' \<and>
       retryCount (execution_result out) = Some 4"
proof -
  have e: "today failing_env = ''Tue Nov 03 2026''" "walletAddress failing_env = Some ''0xabc''"
    "getBalance failing_env = CallOk (Some ''1000'')" "repoCreate failing_env = Inr ''t1''"
    "repoUpdate failing_env = None"
    by (simp_all add: failing_env_def)
  have i: "amount trade_50 = ''50''" by (simp add: trade_50_def)
  have b: "\<not> sample_parseFloat (orElse (Some ''1000'') ''0'') < sample_parseFloat (amount trade_50)"
    by (simp add: orElse_def sample_parseFloat_def i)
  have v: "valid (fst (validateTradeAmount sample_parseFloat sample_str (today failing_env)
      (amount trade_50) (security (start_state ledger_busy))))"
    by (simp add: e i start_state_def trade_50_validated)
  have f: "\<forall>n\<le>maxRetries. isl (attempt_result failing_env n)"
    by (simp add: failing_env_attempts)
  show ?thesis
    using retries_exhausted [OF v e(2) _ e(3) b e(4) f e(5)]
    by (simp add: new_events_def start_state_def failing_env_attempts split: prod.splits)
qed

lemma poor_env_fields:
  "today poor_env = ''Tue Nov 03 2026''" "walletAddress poor_env = Some ''0xabc''"
  "getBalance poor_env = CallOk (Some ''10'')"
  by (simp_all add: poor_env_def failing_env_def)

text \<open>
  Claim C4. The claim: \<open>recordEnd\<close> is invoked exactly once in a run that undertakes a
  trade, and never in a run that did not invoke \<open>recordStart\<close>. The first half holds
  (lemma \<open>record_end_once_after_start\<close> below). The second does not: when the wallet
  holds too little, the run throws before \<open>recordTradeStart\<close>, and the handler still calls
  \<open>recordTradeEnd\<close>, which gives away the slot of another trade in flight.
\<close>

theorem record_end_without_start:
  "case tradeExecutionTool sample_parseFloat sample_str poor_env trade_50
          (start_state ledger_busy) of
     (out, s1) \<Rightarrow>
       trace s1 = [CallTool ''get_balance'', RecordTradeEnd] \<and>
       count_list (trace s1) RecordTradeStart = 0 \<and>
       count_list (trace s1) RecordTradeEnd = 1 \<and>
       concurrentTradesCount (security (start_state ledger_busy)) = 1 \<and>
       concurrentTradesCount (security s1) = 0 \<and>
       error (execution_result out) = Some ''Insufficient USDC balance: 10 < 50''"
proof -
  have i: "amount trade_50 = ''50''" by (simp add: trade_50_def)
  have body: "tradeBody sample_parseFloat sample_str poor_env trade_50 s =
      (Inl (''Insufficient USDC balance: 10 < 50'', 0), emit [CallTool ''get_balance''] s)" for s
    by (simp add: tradeBody_def poor_env_fields i orElse_def sample_parseFloat_def
        sample_str_def Let_def)
  have n: "\<not> sublist ''insufficient'' ''Insufficient USDC balance: 10 < 50''"
    "\<not> sublist ''unauthorized'' ''Insufficient USDC balance: 10 < 50''"
    by code_simp+
  have c: "concurrentTradesCount ledger_busy = 1" by (simp add: ledger_busy_def)
  show ?thesis
    using n
    by (simp add: tradeExecutionTool_def poor_env_fields i start_state_def trade_50_validated
        body emit_def recordTradeEnd_def failureOutput_def noResult_def c Let_def)
qed

lemma attempt_calls_counts:
  "count_list (attempt_calls env n) RecordTradeStart = 0 \<and>
   count_list (attempt_calls env n) RecordTradeEnd = 0"
  by (simp add: attempt_calls_def split: call_result.splits)

lemma retry_trace:
  "\<exists>evs. snd (snd (retryLoop pf env ti rc res s)) = emit evs s \<and>
         count_list evs RecordTradeStart = 0 \<and> count_list evs RecordTradeEnd = 0"
proof (induction "Suc maxRetries - rc" arbitrary: rc res s)
  case 0
  then have "maxRetries < rc" by simp
  then have "snd (snd (retryLoop pf env ti rc res s)) = emit [] s"
    by (simp add: retry_exit emit_def)
  then show ?case by (intro exI[of _ "[]"]) simp
next
  case (Suc k)
  then have rc: "rc \<le> maxRetries" and k: "k = Suc maxRetries - Suc rc" by simp_all
  show ?case
  proof (cases "success res")
    case True
    then have "snd (snd (retryLoop pf env ti rc res s)) = emit [] s"
      by (subst retryLoop.simps) (simp add: emit_def)
    then show ?thesis by (intro exI[of _ "[]"]) simp
  next
    case False
    show ?thesis
    proof (cases "attempt_result env rc")
      case (Inr p)
      then have "snd (snd (retryLoop pf env ti rc res s)) = emit (attempt_calls env rc) s"
        using rc False by (subst retryLoop.simps) (simp add: attempt_eq)
      then show ?thesis
        by (intro exI[of _ "attempt_calls env rc"]) (simp add: attempt_calls_counts)
    next
      case (Inl e)
      note step = retry_fail_step[OF rc False Inl, of pf ti s]
      show ?thesis
      proof (cases "Suc rc \<le> maxRetries")
        case True
        from Suc.hyps(1)[OF k, of res "emit (attempt_calls env rc @ [Sleep retryDelayMs]) s"]
        obtain evs where
          "snd (snd (retryLoop pf env ti (Suc rc) res
              (emit (attempt_calls env rc @ [Sleep retryDelayMs]) s))) =
            emit evs (emit (attempt_calls env rc @ [Sleep retryDelayMs]) s)"
          "count_list evs RecordTradeStart = 0" "count_list evs RecordTradeEnd = 0"
          by blast
        then show ?thesis
          using step True
          by (intro exI[of _ "(attempt_calls env rc @ [Sleep retryDelayMs]) @ evs"])
             (simp add: emit_emit attempt_calls_counts)
      next
        case F: False
        from Suc.hyps(1)[OF k, of "noResult\<lparr> error := Some e, retryCount := Some (Suc rc) \<rparr>"
            "emit (attempt_calls env rc) s"]
        obtain evs where
          "snd (snd (retryLoop pf env ti (Suc rc)
              (noResult\<lparr> error := Some e, retryCount := Some (Suc rc) \<rparr>)
              (emit (attempt_calls env rc) s))) =
            emit evs (emit (attempt_calls env rc) s)"
          "count_list evs RecordTradeStart = 0" "count_list evs RecordTradeEnd = 0"
          by blast
        then show ?thesis
          using step F
          by (intro exI[of _ "attempt_calls env rc @ evs"])
             (simp add: emit_emit attempt_calls_counts)
      qed
    qed
  qed
qed

lemma settle_trace:
  "\<exists>evs. trace (snd (executeAndSettle pf env ti savedId s)) = trace s @ evs \<and>
         count_list evs RecordTradeStart = 0 \<and>
         count_list evs RecordTradeEnd = (if isl (fst (executeAndSettle pf env ti savedId s)) then 0 else 1)"
proof -
  obtain rc res s1 where r: "retryLoop pf env ti 0 noResult s = (rc, res, s1)"
    by (cases "retryLoop pf env ti 0 noResult s")
  from retry_trace[of pf env ti 0 noResult s] r obtain evs where
    e: "s1 = emit evs s" "count_list evs RecordTradeStart = 0" "count_list evs RecordTradeEnd = 0"
    by auto
  show ?thesis
  proof (cases "success res \<and> orElse (transactionHash res) [] \<noteq> []")
    case True
    then show ?thesis
      using e
      by (intro exI[of _ "evs @ [StartMonitor (orElse (transactionHash res) []), RecordTradeEnd]"])
         (simp add: executeAndSettle_def r finishTrade_def emit_def)
  next
    case False
    show ?thesis
    proof (cases "repoUpdate env")
      case None
      then show ?thesis
        using e False
        by (intro exI[of _ "evs @ [RepoUpdateStatus savedId FAILED, RecordTradeEnd]"])
           (auto simp add: executeAndSettle_def r finishTrade_def emit_def)
    next
      case (Some msg)
      then show ?thesis
        using e False
        by (intro exI[of _ "evs @ [RepoUpdateStatus savedId FAILED]"])
           (auto simp add: executeAndSettle_def r emit_def)
    qed
  qed
qed

lemma body_trace:
  "\<exists>evs. trace (snd (tradeBody pf str env ti s)) = trace s @ evs \<and>
         count_list evs RecordTradeStart \<le> 1 \<and>
         (if isl (fst (tradeBody pf str env ti s))
          then count_list evs RecordTradeEnd = 0
          else count_list evs RecordTradeStart = 1 \<and> count_list evs RecordTradeEnd = 1)"
proof (cases "orElse (walletAddress env) [] = []")
  case True
  then show ?thesis by (intro exI[of _ "[]"]) (simp add: tradeBody_def)
next
  case w: False
  show ?thesis
  proof (cases "getBalance env")
    case (CallFailed e)
    then show ?thesis
      using w by (intro exI[of _ "[CallTool ''get_balance'']"]) (simp add: tradeBody_def emit_def)
  next
    case (CallOk b)
    show ?thesis
    proof (cases "pf (orElse b ''0'') < pf (amount ti)")
      case True
      then show ?thesis
        using w CallOk
        by (intro exI[of _ "[CallTool ''get_balance'']"]) (simp add: tradeBody_def emit_def)
    next
      case b: False
      show ?thesis
      proof (cases "repoCreate env")
        case (Inl msg)
        then show ?thesis
          using w CallOk b
          by (intro exI[of _ "[CallTool ''get_balance'', RecordTradeStart, RepoCreate]"])
             (simp add: tradeBody_def emit_def)
      next
        case (Inr savedId)
        let ?s = "(emit [CallTool ''get_balance'', RecordTradeStart, RepoCreate]
             (s\<lparr> security := recordTradeStart pf (amount ti) (security s) \<rparr>))
           \<lparr> db := (db s)(savedId \<mapsto> PENDING) \<rparr>"
        have body: "tradeBody pf str env ti s = executeAndSettle pf env ti savedId ?s"
          using w CallOk b Inr by (simp add: tradeBody_def Let_def emit_def)
        from settle_trace[of pf env ti savedId ?s] obtain evs where
          "trace (snd (executeAndSettle pf env ti savedId ?s)) = trace ?s @ evs"
          "count_list evs RecordTradeStart = 0"
          "count_list evs RecordTradeEnd =
             (if isl (fst (executeAndSettle pf env ti savedId ?s)) then 0 else 1)"
          by blast
        then show ?thesis
          unfolding body
          by (intro exI[of _ "[CallTool ''get_balance'', RecordTradeStart, RepoCreate] @ evs"])
             (simp add: emit_def)
      qed
    qed
  qed
qed

lemma record_end_once_after_start:
  "case tradeExecutionTool pf str env ti s0 of
     (out, s1) \<Rightarrow>
       count_list (new_events s0 s1) RecordTradeStart \<le> 1 \<and>
       count_list (new_events s0 s1) RecordTradeEnd \<le> 1 \<and>
       (RecordTradeStart \<in> set (new_events s0 s1) \<longrightarrow>
          count_list (new_events s0 s1) RecordTradeEnd = 1)"
proof -
  obtain v c1 where v: "validateTradeAmount pf str (today env) (amount ti) (security s0) = (v, c1)"
    by (cases "validateTradeAmount pf str (today env) (amount ti) (security s0)")
  let ?s = "s0\<lparr> security := c1 \<rparr>"
  show ?thesis
  proof (cases "valid v")
    case False
    then show ?thesis by (simp add: tradeExecutionTool_def v new_events_def Let_def)
  next
    case True
    from body_trace[of pf str env ti ?s] obtain evs where
      t: "trace (snd (tradeBody pf str env ti ?s)) = trace s0 @ evs"
      and c: "count_list evs RecordTradeStart \<le> 1"
      and r: "if isl (fst (tradeBody pf str env ti ?s))
          then count_list evs RecordTradeEnd = 0
          else count_list evs RecordTradeStart = 1 \<and> count_list evs RecordTradeEnd = 1"
      by auto
    show ?thesis
    proof (cases "tradeBody pf str env ti ?s")
      case (Pair res s2)
      show ?thesis
      proof (cases res)
        case (Inr out)
        then show ?thesis
          using t c r Pair True
          by (simp add: tradeExecutionTool_def v new_events_def count_list_0_iff Let_def)
      next
        case (Inl thrown)
        obtain msg rc where th: "thrown = (msg, rc)" by (cases thrown)
        show ?thesis
          using t c r Pair True Inl th
          by (simp add: tradeExecutionTool_def v new_events_def emit_def Let_def)
      qed
    qed
  qed
qed

section \<open>Properties of the circuit breaker\<close>






lemma five_failures_facts:
  "list_all fails_at five_failures" "length five_failures = 5"
  "completion_time (last five_failures) = 5010" "five_failures \<noteq> []"
  by (simp_all add: five_failures_def fails_at_def completion_time_def failing_search_def)



section \<open>Properties of the signal cache and the Reddit tool\<close>










lemma process_no_posts: "processRedditData analyse [] w = (Inr neutralData, w)"
  by (simp add: processRedditData_def qualityPosts_def)

text \<open>
  Claim C8. The claim: a neutral result substituted for a failing source is never stored
  in the cache. With the breaker open and an empty cache, \<open>execute\<close> returns the empty
  list of posts without calling the source, \<open>processRedditData\<close> turns it into the neutral
  bundle, and the tool stores that bundle; the next call for the same market and query
  gets it from the cache. (A source that throws is not cached: lemma
  \<open>source_error_not_cached\<close>.)
\<close>

theorem fallback_is_cached:
  "isOpen default_config tripped 6000 \<and>
   (case redditIntelligenceTool default_config h search analyse mid q
           (\<lparr> cache = [], circuitBreaker = tripped \<rparr>, \<lparr> clock = 6000, requests = 0 \<rparr>) of
      (out1, st1, w1) \<Rightarrow>
        out1 = \<lparr> out_data = neutralData, sources = [''reddit-api''], cached = False \<rparr> \<and>
        w1 = \<lparr> clock = 6000, requests = 0 \<rparr> \<and>
        cache st1 = [(cacheKey mid (h q),
                      \<lparr> lru_value = \<lparr> data = neutralData, timestamp = 6000 \<rparr>,
                        lru_start = 6000 \<rparr>)] \<and>
        (case redditIntelligenceTool default_config h search analyse mid q
                (st1, \<lparr> clock = 7000, requests = 0 \<rparr>) of
           (out2, st2, w2) \<Rightarrow>
             out2 = \<lparr> out_data = neutralData, sources = [''reddit-cache''], cached = True \<rparr> \<and>
             w2 = \<lparr> clock = 7000, requests = 0 \<rparr>))"
proof -
  have o: "isOpen default_config tripped 6000"
    by (simp add: isOpen_def tripped_def default_config_def)
  have e: "lru_delete k [] = ([] :: CacheEntry lru)" for k by (simp add: lru_delete_def)
  have miss: "getCachedResult (lru_get 6000) lru_delete 6000 mid (h q) [] = (None, [])"
    by (simp add: getCachedResult_def lru_get_def)
  have hit: "getCachedResult (lru_get 7000) lru_delete 7000 mid (h q)
      [(cacheKey mid (h q), \<lparr> lru_value = \<lparr> data = neutralData, timestamp = 6000 \<rparr>,
                        lru_start = 6000 \<rparr>)] =
      (Some neutralData, [(cacheKey mid (h q),
          \<lparr> lru_value = \<lparr> data = neutralData, timestamp = 6000 \<rparr>, lru_start = 6000 \<rparr>)])"
    by (simp add: getCachedResult_def lru_get_def lru_ttl_def cache_ttl_def lru_delete_def)
  have set: "setCachedResult (lru_set 6000) 6000 mid (h q) neutralData [] =
      [(cacheKey mid (h q), \<lparr> lru_value = \<lparr> data = neutralData, timestamp = 6000 \<rparr>,
                        lru_start = 6000 \<rparr>)]"
    by (simp add: setCachedResult_def lru_set_def e lru_max_def)
  have first: "redditIntelligenceTool default_config h search analyse mid q
           (\<lparr> cache = [], circuitBreaker = tripped \<rparr>, \<lparr> clock = 6000, requests = 0 \<rparr>) =
      (\<lparr> out_data = neutralData, sources = [''reddit-api''], cached = False \<rparr>,
       \<lparr> cache = [(cacheKey mid (h q),
                      \<lparr> lru_value = \<lparr> data = neutralData, timestamp = 6000 \<rparr>,
                        lru_start = 6000 \<rparr>)], circuitBreaker = tripped \<rparr>,
       \<lparr> clock = 6000, requests = 0 \<rparr>)"
    using o
    by (simp add: redditIntelligenceTool_def lib_now_def miss execute_def process_no_posts set)
  show ?thesis
    unfolding first using o by (simp add: redditIntelligenceTool_def lib_now_def hit)
qed

lemma source_error_not_cached:
  assumes "getCachedResult (lru_get (lib_now w)) lru_delete (clock w) mid (h q) (cache st) =
      (None, c1)"
    and "\<not> isOpen cfg (circuitBreaker st) (clock w)"
    and "search q w = (Inl err, w1)"
  shows "redditIntelligenceTool cfg h search analyse mid q (st, w) =
     (fallbackOutput,
      st\<lparr> cache := c1, circuitBreaker := onFailure (clock w1) (circuitBreaker st) \<rparr>, w1)"
  using assms by (simp add: redditIntelligenceTool_def execute_def)

end
